theory Spec2Isabelle
  imports Complex_Main
begin

section \<open>Numbers\<close>

text \<open>
  A TypeScript \<^verbatim>\<open>number\<close> is an IEEE 754 binary64 value: a finite double, an infinity or
  NaN. A finite double is written as the real it is. The sign of a zero is not represented:
  no comparison of the engine tells the two zeros apart, and every division of the engine
  has a divisor that is a non-zero constant or is guarded by \<^verbatim>\<open>=== 0\<close>.
\<close>

datatype number = Fin real | PInf | NInf | NaN

subsection \<open>Rounding to the nearest double\<close>

text \<open>
  The binade of a magnitude \<open>a\<close>: the exponent \<open>e\<close> with \<open>2^e \<le> a < 2^(e+1)\<close>, not below
  -1022 (the subnormal range shares the exponent of the smallest normal numbers), found by
  bisection of the exponent range.
\<close>

fun bisect :: "nat \<Rightarrow> real \<Rightarrow> int \<Rightarrow> int" where
  "bisect 0 a lo = lo"
| "bisect (Suc k) a lo = bisect k a (if 2 powi (lo + 2 ^ k) \<le> a then lo + 2 ^ k else lo)"

definition binade :: "real \<Rightarrow> int" where
  "binade a = bisect 11 a (- 1022)"

text \<open>The integer nearest to \<open>m\<close>, the even one of the two when \<open>m\<close> is halfway.\<close>

definition ties_even :: "int \<Rightarrow> real \<Rightarrow> int" where
  "ties_even f m =
     (if m - of_int f < 1 / 2 then f
      else if 1 / 2 < m - of_int f then f + 1
      else if even f then f else f + 1)"

definition round_half_even :: "real \<Rightarrow> int" where
  "round_half_even m = ties_even \<lfloor>m\<rfloor> m"

text \<open>
  Rounding with 53 significant bits in the binade \<open>e\<close>: to the nearest multiple of
  \<open>2^(e-52)\<close>, ties to even.
\<close>

definition round_at :: "int \<Rightarrow> real \<Rightarrow> real" where
  "round_at e v = of_int (round_half_even (v / 2 powi (e - 52))) * 2 powi (e - 52)"

text \<open>
  The double nearest to a real, before the overflow test. It is also the value of a decimal
  literal of the source and of a decimal text parsed by \<^verbatim>\<open>Number\<close>: the literal
  \<^verbatim>\<open>2.8\<close> is \<open>dbl 2.8\<close>, a little below 2.8.
\<close>

definition dbl :: "real \<Rightarrow> real" where
  "dbl v = round_at (binade \<bar>v\<bar>) v"

definition overflow :: "real \<Rightarrow> number" where
  "overflow r = (if 2 ^ 1024 \<le> r then PInf else if r \<le> - (2 ^ 1024) then NInf else Fin r)"

text \<open>The result of an arithmetic operation whose exact value is \<open>v\<close>.\<close>

definition fl :: "real \<Rightarrow> number" where
  "fl v = overflow (dbl v)"

subsection \<open>Arithmetic and comparison\<close>

text \<open>\<^verbatim>\<open>a + b\<close>, \<^verbatim>\<open>a * b\<close> and \<^verbatim>\<open>a / b\<close>: the exact result, rounded.\<close>

fun fadd :: "number \<Rightarrow> number \<Rightarrow> number" where
  "fadd (Fin a) (Fin b) = fl (a + b)"
| "fadd NaN b = NaN"
| "fadd a NaN = NaN"
| "fadd PInf NInf = NaN"
| "fadd NInf PInf = NaN"
| "fadd PInf b = PInf"
| "fadd a PInf = PInf"
| "fadd NInf b = NInf"
| "fadd a NInf = NInf"

fun fmul :: "number \<Rightarrow> number \<Rightarrow> number" where
  "fmul (Fin a) (Fin b) = fl (a * b)"
| "fmul NaN b = NaN"
| "fmul a NaN = NaN"
| "fmul (Fin a) PInf = (if a = 0 then NaN else if 0 < a then PInf else NInf)"
| "fmul (Fin a) NInf = (if a = 0 then NaN else if 0 < a then NInf else PInf)"
| "fmul PInf (Fin b) = (if b = 0 then NaN else if 0 < b then PInf else NInf)"
| "fmul NInf (Fin b) = (if b = 0 then NaN else if 0 < b then NInf else PInf)"
| "fmul PInf PInf = PInf"
| "fmul NInf NInf = PInf"
| "fmul PInf NInf = NInf"
| "fmul NInf PInf = NInf"

text \<open>A zero divisor is taken as +0; the engine never divides by a zero.\<close>

fun fdiv :: "number \<Rightarrow> number \<Rightarrow> number" where
  "fdiv (Fin a) (Fin b) =
     (if b = 0 then (if a = 0 then NaN else if 0 < a then PInf else NInf) else fl (a / b))"
| "fdiv NaN b = NaN"
| "fdiv a NaN = NaN"
| "fdiv (Fin a) PInf = Fin 0"
| "fdiv (Fin a) NInf = Fin 0"
| "fdiv PInf (Fin b) = (if 0 \<le> b then PInf else NInf)"
| "fdiv NInf (Fin b) = (if 0 \<le> b then NInf else PInf)"
| "fdiv a b = NaN"

text \<open>
  The comparisons: those of the extended reals, and false as soon as an operand is NaN.
\<close>

instantiation number :: ord
begin

fun less_eq_number :: "number \<Rightarrow> number \<Rightarrow> bool" where
  "less_eq_number (Fin a) (Fin b) = (a \<le> b)"
| "less_eq_number NaN b = False"
| "less_eq_number a NaN = False"
| "less_eq_number NInf b = True"
| "less_eq_number a PInf = True"
| "less_eq_number a b = False"

fun less_number :: "number \<Rightarrow> number \<Rightarrow> bool" where
  "less_number (Fin a) (Fin b) = (a < b)"
| "less_number NaN b = False"
| "less_number a NaN = False"
| "less_number NInf NInf = False"
| "less_number NInf b = True"
| "less_number PInf b = False"
| "less_number a PInf = True"
| "less_number a b = False"

instance ..

end

text \<open>
  \<^verbatim>\<open>Math.round\<close>: the integer nearest to the argument, the one closer to plus infinity
  when two are equally near; an infinity or NaN is returned as it is. The result is exact:
  a double of magnitude \<open>2^52\<close> or more is an integer already.
\<close>

fun Math_round :: "number \<Rightarrow> number" where
  "Math_round (Fin v) = Fin (of_int \<lfloor>v + 1 / 2\<rfloor>)"
| "Math_round v = v"

section \<open>The diastolic-function engine (lib/dd2025.ts)\<close>

text \<open>
  The engine is a pure function from a bundle of nullable measurements to a result record.
  A measurement is a finite double or \<^verbatim>\<open>null\<close> (the form passes only finite numbers):
  a \<open>real option\<close>, with \<open>None\<close> for \<^verbatim>\<open>null\<close>. The values the engine computes may be
  infinite: they are of type \<open>number\<close>. Strings are the UTF-8 bytes of the source text.
\<close>

subsection \<open>Data model\<close>

record DDInputs =
  isAF :: bool
  E :: "real option"
  A :: "real option"
  eSeptal :: "real option"
  eLateral :: "real option"
  trVmax :: "real option"
  pasp :: "real option"
  lavi :: "real option"
  lars :: "real option"
  pvSD :: "real option"
  ivrt :: "real option"
  dt :: "real option"
  bmi :: "real option"

datatype tone = green | blue | amber | red | gray

record DDDerived =
  EA :: "number option"
  eAvg :: "number option"
  EeAvg :: "number option"

record DDResult =
  gradeLabel :: string
  summary :: string
  badgeTone :: tone
  derived :: DDDerived
  ruleTrace :: "string list"
  missing :: "string list"

subsection \<open>Text of the source's string literals\<close>

text \<open>The non-ASCII characters of the literals, as their UTF-8 bytes.\<close>

definition prime_sym :: string where
  "prime_sym = [CHR 0xE2, CHR 0x80, CHR 0xB2]"

definition arrow_sym :: string where
  "arrow_sym = [CHR 0xE2, CHR 0x86, CHR 0x92]"

definition le_sym :: string where
  "le_sym = [CHR 0xE2, CHR 0x89, CHR 0xA4]"

definition ge_sym :: string where
  "ge_sym = [CHR 0xE2, CHR 0x89, CHR 0xA5]"

definition endash_sym :: string where
  "endash_sym = [CHR 0xE2, CHR 0x80, CHR 0x93]"

text \<open>A template literal \<^verbatim>\<open>${n}\<close> of a non-negative integer: its decimal digits.\<close>

fun show_nat :: "nat \<Rightarrow> string" where
  "show_nat n =
     (if n < 10 then [''0123456789'' ! n]
      else show_nat (n div 10) @ [''0123456789'' ! (n mod 10)])"

declare show_nat.simps [simp del]

subsection \<open>Utilities\<close>

text \<open>\<^verbatim>\<open>v != null && p(v)\<close> on a nullable value.\<close>

fun present_and :: "'a option \<Rightarrow> ('a \<Rightarrow> bool) \<Rightarrow> bool" where
  "present_and None p = False"
| "present_and (Some v) p = p v"

text \<open>A measurement of the bundle, as the number it is.\<close>

fun num_of :: "real option \<Rightarrow> number option" where
  "num_of None = None"
| "num_of (Some v) = Some (Fin v)"

fun safeDiv :: "number option \<Rightarrow> number option \<Rightarrow> number option" where
  "safeDiv None b = None"
| "safeDiv (Some a) None = None"
| "safeDiv (Some a) (Some b) =
     (if b = Fin 0 then None
      else Some (fdiv (Math_round (fmul (fdiv a b) (Fin 100))) (Fin 100)))"

fun avg2 :: "number option \<Rightarrow> number option \<Rightarrow> number option" where
  "avg2 None None = None"
| "avg2 None (Some b) = Some b"
| "avg2 (Some a) None = Some a"
| "avg2 (Some a) (Some b) =
     Some (fdiv (Math_round (fmul (fdiv (fadd a b) (Fin 2)) (Fin 100))) (Fin 100))"

definition pack ::
  "string \<Rightarrow> string \<Rightarrow> tone \<Rightarrow> number option \<Rightarrow> number option \<Rightarrow> number option \<Rightarrow>
   string list \<Rightarrow> string list \<Rightarrow> DDResult" where
  "pack gl sm bt ea eavg eeavg rt ms =
     \<lparr>gradeLabel = gl, summary = sm, badgeTone = bt,
      derived = \<lparr>EA = ea, eAvg = eavg, EeAvg = eeavg\<rparr>,
      ruleTrace = rt, missing = ms\<rparr>"

subsection \<open>Sinus rhythm (Algorithm 1)\<close>

text \<open>The derived values, local constants of \<^verbatim>\<open>computeSinus\<close>.\<close>

definition sinus_EA :: "DDInputs \<Rightarrow> number option" where
  "sinus_EA x = safeDiv (num_of (E x)) (num_of (A x))"

definition eAvg_of :: "DDInputs \<Rightarrow> number option" where
  "eAvg_of x = avg2 (num_of (eSeptal x)) (num_of (eLateral x))"

definition EeAvg_of :: "DDInputs \<Rightarrow> number option" where
  "EeAvg_of x = safeDiv (num_of (E x)) (eAvg_of x)"

definition sinus_missing :: "DDInputs \<Rightarrow> string list" where
  "sinus_missing x =
     (if E x = None then [''Mitral E (cm/s)''] else []) @
     (if A x = None then [''Mitral A (cm/s) (needed for E/A)''] else []) @
     (if eSeptal x = None \<and> eLateral x = None
      then [''Septal and/or lateral e'' @ prime_sym @ '' (cm/s)''] else [])"

text \<open>The top three markers.\<close>

definition reducedE :: "DDInputs \<Rightarrow> bool" where
  "reducedE x \<longleftrightarrow>
     present_and (eSeptal x) (\<lambda>v. v \<le> 6) \<or>
     present_and (eLateral x) (\<lambda>v. v \<le> 7) \<or>
     present_and (eAvg_of x) (\<lambda>v. v \<le> Fin 6.5)"

definition highEe :: "DDInputs \<Rightarrow> bool" where
  "highEe x \<longleftrightarrow> present_and (EeAvg_of x) (\<lambda>v. v \<ge> Fin 14)"

definition highTR :: "DDInputs \<Rightarrow> bool" where
  "highTR x \<longleftrightarrow>
     present_and (trVmax x) (\<lambda>v. v \<ge> dbl 2.8) \<or> present_and (pasp x) (\<lambda>v. v \<ge> 35)"

definition nAbn :: "DDInputs \<Rightarrow> nat" where
  "nAbn x = length (filter (\<lambda>b. b) [reducedE x, highEe x, highTR x])"

text \<open>Confirmation of the left-atrial pressure.\<close>

definition anyConfirmAvailable :: "DDInputs \<Rightarrow> bool" where
  "anyConfirmAvailable x \<longleftrightarrow>
     pvSD x \<noteq> None \<or> lars x \<noteq> None \<or> lavi x \<noteq> None \<or> ivrt x \<noteq> None"

definition lap :: "DDInputs \<Rightarrow> bool" where
  "lap x \<longleftrightarrow>
     present_and (pvSD x) (\<lambda>v. v \<le> dbl 0.67) \<or>
     present_and (lars x) (\<lambda>v. v \<le> 18) \<or>
     present_and (lavi x) (\<lambda>v. v > 34) \<or>
     present_and (ivrt x) (\<lambda>v. v \<le> 70)"

text \<open>
  Lines 152 to 188: the grade under an elevated pressure, from the trace and the advisories
  collected so far.
\<close>

definition sinusGrade :: "DDInputs \<Rightarrow> string list \<Rightarrow> string list \<Rightarrow> DDResult" where
  "sinusGrade x trace ms =
     (case sinus_EA x of
        None \<Rightarrow>
          pack ''Increased LAP (grade unknown)''
            (''Elevated LAP but E/A missing '' @ arrow_sym @ '' cannot assign Grade 2 vs 3'')
            red (sinus_EA x) (eAvg_of x) (EeAvg_of x) trace ms
      | Some v \<Rightarrow>
          if v \<ge> Fin 2 then
            pack ''Grade 3'' (''Elevated LAP with E/A '' @ ge_sym @ '' 2'')
              red (sinus_EA x) (eAvg_of x) (EeAvg_of x) trace ms
          else
            pack ''Grade 2'' ''Elevated LAP with E/A < 2''
              red (sinus_EA x) (eAvg_of x) (EeAvg_of x) trace ms)"

text \<open>Lines 111 to 150, then the grade.\<close>

definition sinusConfirm :: "DDInputs \<Rightarrow> string list \<Rightarrow> string list \<Rightarrow> DDResult" where
  "sinusConfirm x trace ms =
     (if \<not> anyConfirmAvailable x then
        pack ''Indeterminate''
          (''Need '' @ ge_sym @
           ''1 confirmatory variable (PV S/D, LARS, LAVI, or IVRT) to confirm LAP'')
          amber (sinus_EA x) (eAvg_of x) (EeAvg_of x)
          (trace @ [''No confirmatory variables available'']) ms
      else
        let trace2 = trace @ [if lap x then ''LAP elevated'' else ''LAP not elevated''] in
        if \<not> lap x then
          pack ''Indeterminate''
            ''Abnormal markers present but LAP not confirmed by PV S/D, LARS, LAVI, or IVRT''
            amber (sinus_EA x) (eAvg_of x) (EeAvg_of x) trace2 ms
        else sinusGrade x trace2 ms)"

definition computeSinus :: "DDInputs \<Rightarrow> DDResult" where
  "computeSinus x =
     (let trace = [''Top markers abnormal: '' @ show_nat (nAbn x) @ ''/3''] in
      if nAbn x = 0 then
        pack ''Normal DF''
          (''All diastolic markers normal '' @ arrow_sym @ '' Normal LAP'')
          green (sinus_EA x) (eAvg_of x) (EeAvg_of x) trace (sinus_missing x)
      else if reducedE x \<and> \<not> highEe x \<and> \<not> highTR x then
        let trace1 = trace @ [''Reduced e'' @ prime_sym @ '' only branch''] in
        if present_and (sinus_EA x) (\<lambda>v. v \<le> Fin (dbl 0.8)) then
          pack ''Grade 1''
            (''Reduced e'' @ prime_sym @ '' only with E/A '' @ le_sym @ '' 0.8'')
            blue (sinus_EA x) (eAvg_of x) (EeAvg_of x) trace1 (sinus_missing x)
        else sinusConfirm x trace1 (sinus_missing x)
      else sinusConfirm x trace (sinus_missing x))"

subsection \<open>Atrial fibrillation (Algorithm 2)\<close>

definition af_missing :: "DDInputs \<Rightarrow> string list" where
  "af_missing x =
     (if E x = None then [''Mitral E (cm/s)''] else []) @
     (if eSeptal x = None
      then [''Septal e'' @ prime_sym @ '' (cm/s) (for septal E/e'' @ prime_sym @ '')'']
      else []) @
     (if trVmax x = None \<and> pasp x = None then [''TR Vmax (m/s) or PASP (mmHg)''] else []) @
     (if dt x = None then [''DT (ms)''] else [])"

text \<open>
  The counter \<^verbatim>\<open>count\<close> after its four conditional increments. The quotient of line 213
  is the rounded one.
\<close>

definition af_count :: "DDInputs \<Rightarrow> nat" where
  "af_count x =
     (if present_and (E x) (\<lambda>e. e \<ge> 100) then 1 else 0) +
     (if present_and (E x)
           (\<lambda>e. present_and (eSeptal x) (\<lambda>s. s \<noteq> 0 \<and> fdiv (Fin e) (Fin s) > Fin 11))
      then 1 else 0) +
     (if present_and (trVmax x) (\<lambda>v. v > dbl 2.8) \<or> present_and (pasp x) (\<lambda>v. v > 35)
      then 1 else 0) +
     (if present_and (dt x) (\<lambda>v. v \<le> 160) then 1 else 0)"

text \<open>The counters \<^verbatim>\<open>secAvail\<close> and \<^verbatim>\<open>sec\<close> of the secondary criteria.\<close>

definition af_secAvail :: "DDInputs \<Rightarrow> nat" where
  "af_secAvail x =
     (if lars x \<noteq> None then 1 else 0) +
     (if pvSD x \<noteq> None then 1 else 0) +
     (if bmi x \<noteq> None then 1 else 0)"

definition af_sec :: "DDInputs \<Rightarrow> nat" where
  "af_sec x =
     (if present_and (lars x) (\<lambda>v. v < 18) then 1 else 0) +
     (if present_and (pvSD x) (\<lambda>v. v < 1) then 1 else 0) +
     (if present_and (bmi x) (\<lambda>v. v > 30) then 1 else 0)"

definition computeAF :: "DDInputs \<Rightarrow> DDResult" where
  "computeAF x =
     (let trace = [''AF criteria positive: '' @ show_nat (af_count x) @ ''/4''] in
      if af_count x \<le> 1 then
        pack ''Normal LAP'' (''0'' @ endash_sym @ ''1 AF criteria positive'')
          green None (eAvg_of x) (EeAvg_of x) trace (af_missing x)
      else if af_count x \<ge> 3 then
        pack ''Elevated LAP'' (ge_sym @ ''3 AF criteria positive'')
          red None (eAvg_of x) (EeAvg_of x) trace (af_missing x)
      else
        let trace2 = trace @
              [''Secondary criteria positive: '' @ show_nat (af_sec x) @ ''/'' @
               show_nat (af_secAvail x)] in
        if af_secAvail x = 0 then
          pack ''Indeterminate''
            ''2 AF criteria positive, but no secondary criteria available (LARS, PV S/D, BMI)''
            amber None (eAvg_of x) (EeAvg_of x) trace2 (af_missing x)
        else if af_sec x \<ge> 2 then
          pack ''Elevated LAP''
            (''2 AF criteria + '' @ ge_sym @ ''2 secondary criteria positive'')
            red None (eAvg_of x) (EeAvg_of x) trace2 (af_missing x)
        else if af_sec x = 0 then
          pack ''Normal LAP'' ''2 AF criteria + no secondary criteria positive''
            green None (eAvg_of x) (EeAvg_of x) trace2 (af_missing x)
        else
          pack ''Indeterminate''
            ''2 AF criteria + only 1 secondary criterion positive (or unreliable)''
            amber None (eAvg_of x) (EeAvg_of x) trace2 (af_missing x))"

subsection \<open>Entry point\<close>

definition computeDD2025 :: "DDInputs \<Rightarrow> DDResult" where
  "computeDD2025 x = (if isAF x then computeAF x else computeSinus x)"

subsection \<open>Conditions of the rule stages\<close>

text \<open>
  A decimal cut-point, in the source as in the specification, is the double nearest to it
  (\<open>dbl\<close>); the cut-points 6, 6.5, 7, 14, 35, 18, 34, 70, 2, 100, 11, 160, 1 and 30 are
  doubles themselves.

  The condition of lines 95 and 97 together, under which \<^verbatim>\<open>computeSinus\<close> returns
  "Grade 1".
\<close>

definition grade1_exit :: "DDInputs \<Rightarrow> bool" where
  "grade1_exit x \<longleftrightarrow>
     reducedE x \<and> \<not> highEe x \<and> \<not> highTR x \<and>
     present_and (sinus_EA x) (\<lambda>v. v \<le> Fin (dbl 0.8))"

text \<open>
  The specification's "LAP elevated": (PV S/D \<open>\<le>\<close> 0.67) or (LARS \<open>\<le>\<close> 18) or (LAVI > 34) or
  (IVRT \<open>\<le>\<close> 70), each disjunct only when its input is present.
\<close>

definition spec_lap :: "DDInputs \<Rightarrow> bool" where
  "spec_lap x \<longleftrightarrow>
     (case pvSD x of None \<Rightarrow> False | Some v \<Rightarrow> v \<le> dbl 0.67) \<or>
     (case lars x of None \<Rightarrow> False | Some v \<Rightarrow> v \<le> 18) \<or>
     (case lavi x of None \<Rightarrow> False | Some v \<Rightarrow> v > 34) \<or>
     (case ivrt x of None \<Rightarrow> False | Some v \<Rightarrow> v \<le> 70)"

text \<open>
  The specification's four primary criteria of the AF algorithm, each counted only when its
  inputs are present, and their tally. "E divided by septal e'" is the division of the
  program's numbers.
\<close>

definition spec_af_primary :: "DDInputs \<Rightarrow> bool list" where
  "spec_af_primary x =
     [case E x of None \<Rightarrow> False | Some e \<Rightarrow> e \<ge> 100,
      case E x of None \<Rightarrow> False
      | Some e \<Rightarrow>
          (case eSeptal x of None \<Rightarrow> False
           | Some s \<Rightarrow> s \<noteq> 0 \<and> fdiv (Fin e) (Fin s) > Fin 11),
      (case trVmax x of None \<Rightarrow> False | Some v \<Rightarrow> v > dbl 2.8) \<or>
      (case pasp x of None \<Rightarrow> False | Some v \<Rightarrow> v > 35),
      case dt x of None \<Rightarrow> False | Some v \<Rightarrow> v \<le> 160]"

definition spec_af_tally :: "DDInputs \<Rightarrow> nat" where
  "spec_af_tally x = length (filter (\<lambda>b. b) (spec_af_primary x))"

text \<open>
  The specification's three secondary criteria (LARS < 18, PV S/D < 1, BMI > 30), each a
  pair of "available" and "positive".
\<close>

definition spec_af_secondary :: "DDInputs \<Rightarrow> (bool \<times> bool) list" where
  "spec_af_secondary x =
     [(lars x \<noteq> None, case lars x of None \<Rightarrow> False | Some v \<Rightarrow> v < 18),
      (pvSD x \<noteq> None, case pvSD x of None \<Rightarrow> False | Some v \<Rightarrow> v < 1),
      (bmi x \<noteq> None, case bmi x of None \<Rightarrow> False | Some v \<Rightarrow> v > 30)]"

definition spec_sec_available :: "DDInputs \<Rightarrow> nat" where
  "spec_sec_available x = length (filter fst (spec_af_secondary x))"

definition spec_sec_positive :: "DDInputs \<Rightarrow> nat" where
  "spec_sec_positive x = length (filter snd (spec_af_secondary x))"

subsection \<open>Rounding, as the specification words it\<close>

text \<open>
  Rounding to the nearest integer with ties going away from zero, and the one case where
  \<^verbatim>\<open>Math.round\<close> differs from it: a negative argument exactly halfway between two integers.
\<close>

definition round_half_away :: "real \<Rightarrow> real" where
  "round_half_away v = sgn v * of_int \<lfloor>\<bar>v\<bar> + 1 / 2\<rfloor>"

definition negative_tie :: "real \<Rightarrow> bool" where
  "negative_tie v \<longleftrightarrow> v < 0 \<and> of_int \<lfloor>v + 1 / 2\<rfloor> = v + 1 / 2"

text \<open>
  The quotient of two numbers times 100, and their mean times 100, as the helpers compute
  them before \<^verbatim>\<open>Math.round\<close>: each operation rounded to a double.
\<close>

definition scaled_quotient :: "real \<Rightarrow> real \<Rightarrow> number" where
  "scaled_quotient a b = fmul (fdiv (Fin a) (Fin b)) (Fin 100)"

definition scaled_mean :: "real \<Rightarrow> real \<Rightarrow> number" where
  "scaled_mean a b = fmul (fdiv (fadd (Fin a) (Fin b)) (Fin 2)) (Fin 100)"

text \<open>
  A number rounded to two decimal places: a finite double that is the nearest one to some
  \<open>n / 100\<close> with \<open>n\<close> an integer. A nullable number that is null or such; one that is
  null, such, or an infinity.
\<close>

definition is_2dp :: "number \<Rightarrow> bool" where
  "is_2dp v \<longleftrightarrow> (\<exists>n::int. \<exists>r. v = Fin r \<and> fl (of_int n / 100) = Fin r)"

fun null_or_2dp :: "number option \<Rightarrow> bool" where
  "null_or_2dp None = True"
| "null_or_2dp (Some v) = is_2dp v"

fun null_2dp_or_inf :: "number option \<Rightarrow> bool" where
  "null_2dp_or_inf None = True"
| "null_2dp_or_inf (Some v) = (is_2dp v \<or> v = PInf \<or> v = NInf)"

subsection \<open>Fields and the advisories that name them\<close>

datatype field =
  f_E | f_A | f_eSeptal | f_eLateral | f_trVmax | f_pasp | f_lavi | f_lars | f_pvSD | f_ivrt
  | f_dt | f_bmi

fun field_value :: "DDInputs \<Rightarrow> field \<Rightarrow> real option" where
  "field_value x f_E = E x"
| "field_value x f_A = A x"
| "field_value x f_eSeptal = eSeptal x"
| "field_value x f_eLateral = eLateral x"
| "field_value x f_trVmax = trVmax x"
| "field_value x f_pasp = pasp x"
| "field_value x f_lavi = lavi x"
| "field_value x f_lars = lars x"
| "field_value x f_pvSD = pvSD x"
| "field_value x f_ivrt = ivrt x"
| "field_value x f_dt = dt x"
| "field_value x f_bmi = bmi x"

text \<open>
  The fields an advisory string names: those that the guard of its \<^verbatim>\<open>missing.push\<close>
  tests for null (lines 58 to 60 and 202 to 205).
\<close>

definition advisory_fields :: "string \<Rightarrow> field list" where
  "advisory_fields s =
     (if s = ''Mitral E (cm/s)'' then [f_E]
      else if s = ''Mitral A (cm/s) (needed for E/A)'' then [f_A]
      else if s = ''Septal and/or lateral e'' @ prime_sym @ '' (cm/s)''
        then [f_eSeptal, f_eLateral]
      else if s = ''Septal e'' @ prime_sym @ '' (cm/s) (for septal E/e'' @ prime_sym @ '')''
        then [f_eSeptal]
      else if s = ''TR Vmax (m/s) or PASP (mmHg)'' then [f_trVmax, f_pasp]
      else if s = ''DT (ms)'' then [f_dt]
      else [])"

definition listed :: "field \<Rightarrow> string list \<Rightarrow> bool" where
  "listed f ms \<longleftrightarrow> f \<in> set (concat (map advisory_fields ms))"

text \<open>
  The fields each algorithm reads: \<^verbatim>\<open>computeSinus\<close> reads neither DT nor BMI,
  \<^verbatim>\<open>computeAF\<close> reads neither A nor LAVI nor IVRT.
\<close>

fun relevant :: "bool \<Rightarrow> field \<Rightarrow> bool" where
  "relevant af f_A = (\<not> af)"
| "relevant af f_lavi = (\<not> af)"
| "relevant af f_ivrt = (\<not> af)"
| "relevant af f_dt = af"
| "relevant af f_bmi = af"
| "relevant af f = True"

text \<open>
  When the list names a field: E when absent; in sinus mode A when absent, and the two e'
  when both are absent; in AF mode septal e' when absent, TR Vmax and PASP when both are
  absent, DT when absent; no other field.
\<close>

fun advised :: "DDInputs \<Rightarrow> field \<Rightarrow> bool" where
  "advised x f_E = (E x = None)"
| "advised x f_A = (\<not> isAF x \<and> A x = None)"
| "advised x f_eSeptal = (eSeptal x = None \<and> (isAF x \<or> eLateral x = None))"
| "advised x f_eLateral = (\<not> isAF x \<and> eSeptal x = None \<and> eLateral x = None)"
| "advised x f_trVmax = (isAF x \<and> trVmax x = None \<and> pasp x = None)"
| "advised x f_pasp = (isAF x \<and> trVmax x = None \<and> pasp x = None)"
| "advised x f_dt = (isAF x \<and> dt x = None)"
| "advised x f = False"

subsection \<open>Example bundles\<close>

text \<open>
  The bundle with every measurement absent, in sinus rhythm. In the examples a measurement
  typed with decimals is the double nearest to it.
\<close>

definition blankInputs :: DDInputs where
  "blankInputs =
     \<lparr>isAF = False, E = None, A = None, eSeptal = None, eLateral = None, trVmax = None,
      pasp = None, lavi = None, lars = None, pvSD = None, ivrt = None, dt = None, bmi = None\<rparr>"

text \<open>All three markers normal (the first sinus example of the specification).\<close>

definition ex_normal :: DDInputs where
  "ex_normal =
     blankInputs\<lparr>E := Some 80, A := Some 60, eSeptal := Some 7, eLateral := Some 10,
       trVmax := Some (dbl 2.6)\<rparr>"

text \<open>Reduced e' and a high E/e', LAVI 40, and E/A exactly 2.\<close>

definition ex_elevated :: DDInputs where
  "ex_elevated =
     blankInputs\<lparr>E := Some 120, A := Some 60, eSeptal := Some 5, eLateral := Some 6,
       lavi := Some 40\<rparr>"

text \<open>Reduced e' alone: with E/A 0.6, with E/A 1.2, and with E/A 1.2 and LAVI 30.\<close>

definition ex_grade1 :: DDInputs where
  "ex_grade1 = blankInputs\<lparr>E := Some 60, A := Some 100, eSeptal := Some 5, eLateral := Some 9\<rparr>"

definition ex_fallthrough :: DDInputs where
  "ex_fallthrough =
     blankInputs\<lparr>E := Some 60, A := Some 50, eSeptal := Some 5, eLateral := Some 9\<rparr>"

definition ex_unconfirmed :: DDInputs where
  "ex_unconfirmed =
     blankInputs\<lparr>E := Some 60, A := Some 50, eSeptal := Some 5, eLateral := Some 9,
       lavi := Some 30\<rparr>"

text \<open>AF with two primary criteria (TR Vmax, DT) and two of three secondary ones.\<close>

definition ex_af_tiebreak :: DDInputs where
  "ex_af_tiebreak =
     blankInputs\<lparr>isAF := True, E := Some 95, eSeptal := Some 9, trVmax := Some 3,
       dt := Some 140, lars := Some 10, pvSD := Some (dbl 0.8), bmi := Some 25\<rparr>"

text \<open>The same primary criteria with no secondary input.\<close>

definition ex_af_no_secondary :: DDInputs where
  "ex_af_no_secondary =
     blankInputs\<lparr>isAF := True, E := Some 95, eSeptal := Some 9, trVmax := Some 3,
       dt := Some 140\<rparr>"

text \<open>
  AF with E typed 90.2 and septal e' typed 8.2: the quotient of the two doubles is the
  double next above 11.
\<close>

definition ex_af_quotient :: DDInputs where
  "ex_af_quotient =
     blankInputs\<lparr>isAF := True, E := Some (dbl 90.2), eSeptal := Some (dbl 8.2),
       trVmax := Some 3, dt := Some 200\<rparr>"

text \<open>Septal e' alone, with three decimals.\<close>

definition ex_single_e :: DDInputs where
  "ex_single_e = blankInputs\<lparr>E := Some 80, A := Some 60, eSeptal := Some (dbl 7.123)\<rparr>"

text \<open>A quotient whose product with 100 overflows.\<close>

definition ex_overflow :: DDInputs where
  "ex_overflow = blankInputs\<lparr>E := Some (dbl (10 ^ 307)), A := Some 1\<rparr>"

section \<open>Properties\<close>

subsection \<open>Rounding to the nearest double\<close>

lemma bisect_numeral [simp]:
  "bisect (numeral n) a lo =
     bisect (pred_numeral n) a
       (if 2 powi (lo + 2 ^ pred_numeral n) \<le> a then lo + 2 ^ pred_numeral n else lo)"
  by (simp add: numeral_eq_Suc)

text \<open>The equations that evaluate a rounding on a numeral.\<close>

lemmas round_eval =
  fl_def overflow_def dbl_def round_at_def binade_def round_half_even_def ties_even_def

lemma bisect_lower: "2 powi lo \<le> a \<Longrightarrow> 2 powi (bisect k a lo) \<le> a"
  by (induction k arbitrary: lo) simp_all

lemma bisect_upper: "a < 2 powi (lo + 2 ^ k) \<Longrightarrow> a < 2 powi (bisect k a lo + 1)"
proof (induction k arbitrary: lo)
  case 0
  then show ?case by simp
next
  case (Suc k)
  have "a < 2 powi ((if 2 powi (lo + 2 ^ k) \<le> a then lo + 2 ^ k else lo) + 2 ^ k)"
    using Suc.prems by (simp add: add.assoc mult_2 [symmetric])
  then show ?case
    using Suc.IH by simp
qed

lemma bisect_below: "a < 2 powi lo \<Longrightarrow> bisect k a lo = lo"
proof (induction k arbitrary: lo)
  case 0
  then show ?case by simp
next
  case (Suc k)
  have "(2::real) powi lo \<le> 2 powi (lo + 2 ^ k)"
    by (rule power_int_increasing) simp_all
  then have "\<not> 2 powi (lo + 2 ^ k) \<le> a"
    using Suc.prems by linarith
  then show ?case
    using Suc by simp
qed

text \<open>
  The binade of a normal magnitude brackets it between two powers of two; a subnormal
  magnitude has the least binade.
\<close>

lemma binade_normal:
  assumes "2 powi (- 1022) \<le> a" and "a < 2 ^ 1024"
  shows "2 powi (binade a) \<le> a \<and> a < 2 powi (binade a + 1)"
proof -
  have "a < 2 powi (- 1022 + 2 ^ 11)"
  proof -
    have "(2::real) ^ 1024 \<le> 2 powi (- 1022 + 2 ^ 11)"
      by simp
    then show ?thesis using assms(2) by linarith
  qed
  then show ?thesis
    unfolding binade_def using assms(1) bisect_lower bisect_upper by blast
qed

lemma binade_subnormal: "a < 2 powi (- 1022) \<Longrightarrow> binade a = - 1022"
  unfolding binade_def by (rule bisect_below)

lemma binade_le_max: "2 powi (binade a) \<le> max a (2 powi (- 1022))"
proof (cases "2 powi (- 1022) \<le> a")
  case True
  then have "2 powi (binade a) \<le> a"
    unfolding binade_def by (rule bisect_lower)
  then show ?thesis by simp
next
  case False
  then have "binade a = - 1022"
    by (simp add: binade_subnormal)
  then show ?thesis by simp
qed

text \<open>The rounded value is within half a unit in the last place of the exact one.\<close>

lemma round_half_even_near: "\<bar>of_int (round_half_even m) - m\<bar> \<le> 1 / 2"
  unfolding round_half_even_def ties_even_def by (auto; linarith)

lemma round_at_error: "\<bar>round_at e v - v\<bar> \<le> 2 powi (e - 53)"
proof -
  define u :: real where "u = 2 powi (e - 52)"
  have u: "0 < u" and h: "2 powi (e - 53) = u / 2"
    unfolding u_def by (simp_all add: power_int_diff)
  have "round_at e v - v = (of_int (round_half_even (v / u)) - v / u) * u"
    using u unfolding round_at_def u_def by (simp add: field_simps)
  then have "\<bar>round_at e v - v\<bar> = \<bar>of_int (round_half_even (v / u)) - v / u\<bar> * u"
    using u by (simp add: abs_mult)
  also have "\<dots> \<le> 1 / 2 * u"
    using round_half_even_near [of "v / u"] u by (intro mult_right_mono) simp_all
  finally show ?thesis
    using h by simp
qed

lemma dbl_error: "\<bar>dbl v - v\<bar> \<le> max \<bar>v\<bar> (2 powi (- 1022)) / 2 ^ 53"
proof -
  have "\<bar>dbl v - v\<bar> \<le> 2 powi (binade \<bar>v\<bar> - 53)"
    unfolding dbl_def by (rule round_at_error)
  also have "\<dots> = 2 powi (binade \<bar>v\<bar>) / 2 ^ 53"
    by (simp add: power_int_diff)
  also have "\<dots> \<le> max \<bar>v\<bar> (2 powi (- 1022)) / 2 ^ 53"
    using binade_le_max [of "\<bar>v\<bar>"] by (intro divide_right_mono) simp_all
  finally show ?thesis .
qed

lemma fl_Fin: "fl v = Fin r \<Longrightarrow> r = dbl v"
  by (simp add: fl_def overflow_def split: if_splits)

lemma fl_cases: "(\<exists>r. fl v = Fin r) \<or> fl v = PInf \<or> fl v = NInf"
  by (simp add: fl_def overflow_def)

lemma fl_not_NaN [simp]: "fl v \<noteq> NaN"
  by (simp add: fl_def overflow_def)

text \<open>
  A number of moderate size that is rounded to two decimal places is, times 100, within a
  thousandth of an integer.
\<close>

lemma is_2dp_near:
  assumes "is_2dp (Fin r)" and "\<bar>r\<bar> \<le> 1000"
  shows "\<exists>n::int. \<bar>r * 100 - of_int n\<bar> \<le> 1 / 1000"
proof -
  from assms(1) obtain n :: int where n: "fl (of_int n / 100) = Fin r"
    by (auto simp add: is_2dp_def)
  define y :: real where "y = of_int n / 100"
  have r: "r = dbl y"
    using n fl_Fin unfolding y_def by blast
  have e: "\<bar>r - y\<bar> \<le> max \<bar>y\<bar> (2 powi (- 1022)) / 2 ^ 53"
    using dbl_error [of y] r by simp
  have t: "(2::real) powi (- 1022) \<le> 1"
    by (simp add: power_int_minus_divide)
  have p: "(2::real) ^ 53 = 9007199254740992"
    by simp
  have m: "max \<bar>y\<bar> (2 powi (- 1022)) \<le> \<bar>y\<bar> + 1"
    using t by simp
  define d where "d = \<bar>r - y\<bar>"
  define c where "c = \<bar>y\<bar>"
  have "d \<le> (c + 1) / 2 ^ 53"
    using e m unfolding d_def c_def
    by (meson divide_right_mono order_trans zero_le_numeral zero_le_power)
  then have e2: "d * 9007199254740992 \<le> c + 1"
    unfolding p by (simp add: field_simps)
  have tri: "c \<le> 1000 + d" and d0: "0 \<le> d"
    using assms(2) unfolding d_def c_def by linarith+
  have "d * 9007199254740992 \<le> 1001 + d"
    using e2 tri by linarith
  then have "d * 100 \<le> 1 / 1000"
    using d0 by linarith
  moreover have "\<bar>r * 100 - of_int n\<bar> = d * 100"
    unfolding d_def y_def by (simp add: field_simps)
  ultimately have "\<bar>r * 100 - of_int n\<bar> \<le> 1 / 1000"
    by simp
  then show ?thesis ..
qed

subsection \<open>Arithmetic of the helpers\<close>

lemma fdiv_Fin_not_NaN: "b \<noteq> NaN \<Longrightarrow> b \<noteq> Fin 0 \<Longrightarrow> fdiv (Fin a) b \<noteq> NaN"
  by (cases b) simp_all

lemma fdiv_const_not_NaN: "c \<noteq> 0 \<Longrightarrow> q \<noteq> NaN \<Longrightarrow> fdiv q (Fin c) \<noteq> NaN"
  by (cases q) simp_all

lemma fmul_100_not_NaN: "q \<noteq> NaN \<Longrightarrow> fmul q (Fin 100) \<noteq> NaN"
  by (cases q) simp_all

lemma fadd_Fin_not_NaN: "fadd (Fin a) (Fin b) \<noteq> NaN"
  by simp

lemma Math_round_not_NaN: "p \<noteq> NaN \<Longrightarrow> Math_round p \<noteq> NaN"
  by (cases p) simp_all

text \<open>The last two steps of both helpers: the rounded product, divided by 100.\<close>

lemma round_div100:
  assumes "p \<noteq> NaN"
  shows "is_2dp (fdiv (Math_round p) (Fin 100)) \<or>
         fdiv (Math_round p) (Fin 100) = PInf \<or> fdiv (Math_round p) (Fin 100) = NInf"
proof (cases p)
  case (Fin v)
  have "fdiv (Math_round p) (Fin 100) = fl (of_int \<lfloor>v + 1 / 2\<rfloor> / 100)"
    using Fin by simp
  then show ?thesis
    using fl_cases [of "of_int \<lfloor>v + 1 / 2\<rfloor> / 100"] by (auto simp add: is_2dp_def)
qed (use assms in simp_all)

lemma safeDiv_2dp:
  assumes "b \<noteq> Some NaN"
  shows "null_2dp_or_inf (safeDiv (num_of a) b)"
proof (cases a)
  case None
  then show ?thesis by simp
next
  case (Some u)
  show ?thesis
  proof (cases b)
    case None
    then show ?thesis using Some by simp
  next
    case (Some w)
    have w: "w \<noteq> NaN"
      using assms Some by simp
    show ?thesis
    proof (cases "w = Fin 0")
      case True
      then show ?thesis using \<open>a = Some u\<close> Some by simp
    next
      case False
      have "fmul (fdiv (Fin u) w) (Fin 100) \<noteq> NaN"
        using w False by (intro fmul_100_not_NaN fdiv_Fin_not_NaN)
      then show ?thesis
        using \<open>a = Some u\<close> Some False round_div100 by simp
    qed
  qed
qed

lemma avg2_both_2dp: "null_2dp_or_inf (avg2 (Some (Fin a)) (Some (Fin b)))"
proof -
  have "fmul (fdiv (fadd (Fin a) (Fin b)) (Fin 2)) (Fin 100) \<noteq> NaN"
    by (intro fmul_100_not_NaN fdiv_const_not_NaN fadd_Fin_not_NaN) simp
  then show ?thesis
    using round_div100 by simp
qed

lemma avg2_not_NaN: "avg2 (num_of a) (num_of b) \<noteq> Some NaN"
proof (cases a; cases b)
  fix u w
  assume "a = Some u" and "b = Some w"
  then show ?thesis
    using avg2_both_2dp [of u w] by (auto simp add: is_2dp_def)
qed simp_all

text \<open>\<^verbatim>\<open>Math.round\<close> and rounding half away from zero.\<close>

lemma floor_half_nearest: "v - 1 / 2 < of_int \<lfloor>v + 1 / 2\<rfloor> \<and> of_int \<lfloor>v + 1 / 2\<rfloor> \<le> v + 1 / 2"
  by linarith

lemma floor_half_away:
  assumes "\<not> negative_tie v"
  shows "of_int \<lfloor>v + 1 / 2\<rfloor> = round_half_away v"
proof (cases "v < 0")
  case False
  then show ?thesis
    by (cases "v = 0") (simp_all add: round_half_away_def)
next
  case True
  define n where "n = \<lfloor>v + 1 / 2\<rfloor>"
  have "of_int n \<le> v + 1 / 2" and up: "v + 1 / 2 < of_int n + 1"
    unfolding n_def by linarith+
  moreover have "of_int n \<noteq> v + 1 / 2"
    using assms True by (simp add: negative_tie_def n_def)
  ultimately have lo: "of_int n < v + 1 / 2"
    by simp
  have "\<lfloor>- v + 1 / 2\<rfloor> = - n"
    using lo up by (intro floor_unique) simp_all
  then show ?thesis
    using True by (simp add: round_half_away_def n_def)
qed

subsection \<open>Shared facts of the engine\<close>

lemma pack_sel [simp]:
  "gradeLabel (pack gl sm bt ea eavg eeavg rt ms) = gl"
  "summary (pack gl sm bt ea eavg eeavg rt ms) = sm"
  "badgeTone (pack gl sm bt ea eavg eeavg rt ms) = bt"
  "derived (pack gl sm bt ea eavg eeavg rt ms) = \<lparr>EA = ea, eAvg = eavg, EeAvg = eeavg\<rparr>"
  "ruleTrace (pack gl sm bt ea eavg eeavg rt ms) = rt"
  "missing (pack gl sm bt ea eavg eeavg rt ms) = ms"
  by (simp_all add: pack_def)

lemma nAbn_zero_iff: "nAbn x = 0 \<longleftrightarrow> \<not> reducedE x \<and> \<not> highEe x \<and> \<not> highTR x"
  by (simp add: nAbn_def)

lemma sinusGrade_tone: "badgeTone (sinusGrade x tr ms) = red"
  by (simp add: sinusGrade_def split: option.split)

lemma sinusConfirm_tone: "badgeTone (sinusConfirm x tr ms) \<in> {amber, red}"
  by (simp add: sinusConfirm_def Let_def sinusGrade_tone)

lemma computeSinus_tone: "badgeTone (computeSinus x) \<in> {green, blue, amber, red}"
  using sinusConfirm_tone [of x] by (auto simp add: computeSinus_def Let_def)

lemma computeAF_tone: "badgeTone (computeAF x) \<in> {green, amber, red}"
  by (simp add: computeAF_def Let_def)

lemma computeAF_EA: "EA (derived (computeAF x)) = None"
  by (simp add: computeAF_def Let_def)

lemma markers_confirm_indep:
  "reducedE (x\<lparr>pvSD := p, lars := l, lavi := v, ivrt := i\<rparr>) = reducedE x"
  "highEe (x\<lparr>pvSD := p, lars := l, lavi := v, ivrt := i\<rparr>) = highEe x"
  "highTR (x\<lparr>pvSD := p, lars := l, lavi := v, ivrt := i\<rparr>) = highTR x"
  by (simp_all add: reducedE_def highEe_def highTR_def eAvg_of_def EeAvg_of_def)

lemma present_and_case: "present_and ov p = (case ov of None \<Rightarrow> False | Some v \<Rightarrow> p v)"
  by (cases ov) simp_all

lemma lap_spec_lap: "lap x = spec_lap x"
  unfolding lap_def spec_lap_def present_and_case by (rule refl)

lemma nAbn_only_reduced: "reducedE x \<Longrightarrow> \<not> highEe x \<Longrightarrow> \<not> highTR x \<Longrightarrow> nAbn x = 1"
  by (simp add: nAbn_def)

lemma show_nat_1: "show_nat (Suc 0) = ''1''"
  by (simp add: show_nat.simps)

text \<open>Past the two early exits the result is that of the confirmation stage.\<close>

lemma computeSinus_to_confirm:
  assumes "reducedE x \<or> highEe x \<or> highTR x" and "\<not> grade1_exit x"
  shows "\<exists>tr. computeSinus x = sinusConfirm x tr (sinus_missing x)"
  using assms by (auto simp add: computeSinus_def Let_def nAbn_zero_iff grade1_exit_def)

lemma sinusConfirm_unavailable:
  "\<not> anyConfirmAvailable x \<Longrightarrow>
   gradeLabel (sinusConfirm x tr ms) = ''Indeterminate'' \<and>
   badgeTone (sinusConfirm x tr ms) = amber"
  by (simp add: sinusConfirm_def)

lemma sinusGrade_trace: "ruleTrace (sinusGrade x tr ms) = tr"
  by (simp add: sinusGrade_def split: option.split)

lemma sinusGrade_EA: "EA (derived (sinusGrade x tr ms)) = sinus_EA x"
  by (simp add: sinusGrade_def split: option.split)

lemma sinusGrade_label:
  "gradeLabel (sinusGrade x tr ms) =
     (case sinus_EA x of None \<Rightarrow> ''Increased LAP (grade unknown)''
      | Some v \<Rightarrow> if v \<ge> Fin 2 then ''Grade 3'' else ''Grade 2'')"
  by (simp add: sinusGrade_def split: option.split)

lemma sinusConfirm_available:
  assumes "anyConfirmAvailable x"
  shows "last (ruleTrace (sinusConfirm x tr ms)) =
           (if lap x then ''LAP elevated'' else ''LAP not elevated'')"
    and "\<not> lap x \<Longrightarrow> gradeLabel (sinusConfirm x tr ms) = ''Indeterminate'' \<and>
           badgeTone (sinusConfirm x tr ms) = amber"
    and "lap x \<Longrightarrow> sinusConfirm x tr ms = sinusGrade x (tr @ [''LAP elevated'']) ms"
  using assms by (simp_all add: sinusConfirm_def Let_def sinusGrade_trace)

lemma sinusConfirm_not_grade1: "gradeLabel (sinusConfirm x tr ms) \<noteq> ''Grade 1''"
  by (simp add: sinusConfirm_def Let_def sinusGrade_label split: option.split)

lemma af_count_spec: "af_count x = spec_af_tally x"
  unfolding af_count_def spec_af_tally_def spec_af_primary_def present_and_case
  by simp

lemma af_secAvail_spec: "af_secAvail x = spec_sec_available x"
  unfolding af_secAvail_def spec_sec_available_def spec_af_secondary_def
  by simp

lemma af_sec_spec: "af_sec x = spec_sec_positive x"
  unfolding af_sec_def spec_sec_positive_def spec_af_secondary_def present_and_case
  by simp

lemma af_sec_le_avail: "af_sec x \<le> af_secAvail x"
  unfolding af_sec_def af_secAvail_def
  by (cases "lars x"; cases "pvSD x"; cases "bmi x"; simp)

lemma computeAF_low: "af_count x \<le> 1 \<Longrightarrow>
    gradeLabel (computeAF x) = ''Normal LAP'' \<and> badgeTone (computeAF x) = green"
  by (simp add: computeAF_def)

lemma computeAF_high: "af_count x \<ge> 3 \<Longrightarrow>
    gradeLabel (computeAF x) = ''Elevated LAP'' \<and> badgeTone (computeAF x) = red"
  by (simp add: computeAF_def)

lemma computeAF_two:
  assumes "af_count x = 2"
  shows "gradeLabel (computeAF x) =
           (if af_secAvail x = 0 then ''Indeterminate''
            else if af_sec x \<ge> 2 then ''Elevated LAP''
            else if af_sec x = 0 then ''Normal LAP'' else ''Indeterminate'')"
    and "badgeTone (computeAF x) =
           (if af_secAvail x = 0 then amber
            else if af_sec x \<ge> 2 then red
            else if af_sec x = 0 then green else amber)"
  using assms by (simp_all add: computeAF_def Let_def)

lemma computeSinus_derived:
  "derived (computeSinus x) = \<lparr>EA = sinus_EA x, eAvg = eAvg_of x, EeAvg = EeAvg_of x\<rparr>"
  by (simp add: computeSinus_def sinusConfirm_def sinusGrade_def Let_def split: option.split)

lemma computeAF_derived:
  "derived (computeAF x) = \<lparr>EA = None, eAvg = eAvg_of x, EeAvg = EeAvg_of x\<rparr>"
  by (simp add: computeAF_def Let_def)

lemma computeSinus_missing: "missing (computeSinus x) = sinus_missing x"
  by (simp add: computeSinus_def sinusConfirm_def sinusGrade_def Let_def split: option.split)

lemma computeAF_missing: "missing (computeAF x) = af_missing x"
  by (simp add: computeAF_def Let_def)

lemma computeDD2025_missing:
  "missing (computeDD2025 x) = (if isAF x then af_missing x else sinus_missing x)"
  by (simp add: computeDD2025_def computeSinus_missing computeAF_missing)

lemma listed_sinus: "listed f (sinus_missing x) \<longleftrightarrow>
    (f = f_E \<and> E x = None) \<or> (f = f_A \<and> A x = None) \<or>
    ((f = f_eSeptal \<or> f = f_eLateral) \<and> eSeptal x = None \<and> eLateral x = None)"
  by (auto simp add: listed_def sinus_missing_def advisory_fields_def prime_sym_def)

lemma listed_af: "listed f (af_missing x) \<longleftrightarrow>
    (f = f_E \<and> E x = None) \<or> (f = f_eSeptal \<and> eSeptal x = None) \<or>
    ((f = f_trVmax \<or> f = f_pasp) \<and> trVmax x = None \<and> pasp x = None) \<or>
    (f = f_dt \<and> dt x = None)"
  by (auto simp add: listed_def af_missing_def advisory_fields_def prime_sym_def)

lemma advised_absent: "advised x f \<Longrightarrow> field_value x f = None"
  by (cases f) simp_all

text \<open>The equations that evaluate the derived values and the markers of a bundle.\<close>

lemmas engine_eval =
  blankInputs_def reducedE_def highEe_def highTR_def grade1_exit_def spec_lap_def
  sinus_EA_def eAvg_of_def EeAvg_of_def

subsection \<open>Worked values\<close>

text \<open>
  Quotients of measurements typed with decimals, as the helpers return them, and the
  quotient of line 213 for E typed 68.2 and septal e' typed 6.2, which is the double 11.
\<close>

lemma safeDiv_worked:
  "safeDiv (Some (Fin (dbl 66.234))) (Some (Fin (dbl 33.2))) = Some (Fin (dbl 1.99))"
  "safeDiv (Some (Fin (dbl 32.361))) (Some (Fin (dbl 40.2))) = Some (Fin (dbl 0.8))"
  "safeDiv (Some (Fin 80)) (Some (Fin 100)) = Some (Fin (dbl 0.8))"
  by (simp_all add: round_eval)

lemma fdiv_worked: "fdiv (Fin (dbl 68.2)) (Fin (dbl 6.2)) = Fin 11"
  by (simp add: round_eval)

text \<open>A measurement typed as a cut-point meets the inclusive comparison with it.\<close>

lemma cut_point_worked:
  "highTR (blankInputs\<lparr>trVmax := Some (dbl 2.8)\<rparr>)"
  "spec_lap (blankInputs\<lparr>pvSD := Some (dbl 0.67)\<rparr>)"
  "\<not> dbl 2.8 > dbl 2.8"
  by (simp_all add: engine_eval round_eval)

subsection \<open>Sinus rhythm: the all-normal exit\<close>

text \<open>
  C5. In sinus mode, when the three top markers (reduced e', high E/average-e', high
  right-heart pressure) are all false, the grade is "Normal DF" with tone green, whatever
  is put in place of the confirmatory inputs PV S/D, LARS, LAVI and IVRT (present or
  absent).
\<close>

theorem sinus_all_normal:
  assumes "\<not> isAF x" and "\<not> reducedE x" and "\<not> highEe x" and "\<not> highTR x"
  shows "gradeLabel (computeDD2025 (x\<lparr>pvSD := p, lars := l, lavi := v, ivrt := i\<rparr>))
           = ''Normal DF'' \<and>
         badgeTone (computeDD2025 (x\<lparr>pvSD := p, lars := l, lavi := v, ivrt := i\<rparr>))
           = green"
  using assms
  by (simp add: computeDD2025_def computeSinus_def Let_def nAbn_zero_iff markers_confirm_indep)

theorem sinus_all_normal_witness:
  "\<not> isAF ex_normal \<and> \<not> reducedE ex_normal \<and> \<not> highEe ex_normal \<and> \<not> highTR ex_normal \<and>
   gradeLabel (computeDD2025 (ex_normal\<lparr>pvSD := Some (1 / 2), lars := Some 10,
      lavi := Some 40, ivrt := None\<rparr>)) = ''Normal DF'' \<and>
   badgeTone (computeDD2025 (ex_normal\<lparr>pvSD := Some (1 / 2), lars := Some 10,
      lavi := Some 40, ivrt := None\<rparr>)) = green"
proof -
  have h: "\<not> isAF ex_normal" "\<not> reducedE ex_normal" "\<not> highEe ex_normal"
    "\<not> highTR ex_normal"
    by (simp_all add: ex_normal_def engine_eval round_eval)
  show ?thesis
    using h sinus_all_normal [OF h, where p = "Some (1 / 2)" and l = "Some 10"
      and v = "Some 40" and i = None]
    by simp
qed

subsection \<open>Sinus rhythm: reduced e' alone\<close>

text \<open>
  C3. In sinus mode, when the reduced-e' marker is the only true top marker: if E/A (the
  guarded quotient of E and A) is present and at most 0.8, the grade is "Grade 1" with tone
  blue; if E/A is absent or above 0.8, the engine does not return at this stage: its result
  is that of the confirmation stage (which starts with the confirmatory-availability check),
  run with the trace of the tally and of the branch, and the grade is not "Grade 1".
\<close>

theorem sinus_reduced_e_only:
  assumes "\<not> isAF x" and "reducedE x" and "\<not> highEe x" and "\<not> highTR x"
  shows "(\<forall>v. safeDiv (num_of (E x)) (num_of (A x)) = Some v \<and> v \<le> Fin (dbl 0.8) \<longrightarrow>
            gradeLabel (computeDD2025 x) = ''Grade 1'' \<and> badgeTone (computeDD2025 x) = blue) \<and>
         (safeDiv (num_of (E x)) (num_of (A x)) = None \<or>
          (\<exists>v. safeDiv (num_of (E x)) (num_of (A x)) = Some v \<and> v > Fin (dbl 0.8)) \<longrightarrow>
            computeDD2025 x =
              sinusConfirm x
                [''Top markers abnormal: 1/3'', ''Reduced e'' @ prime_sym @ '' only branch'']
                (sinus_missing x) \<and>
            gradeLabel (computeDD2025 x) \<noteq> ''Grade 1'')"
proof -
  have n: "nAbn x = 1"
    using assms(2-4) by (rule nAbn_only_reduced)
  have a: "\<And>v. sinus_EA x = Some v \<Longrightarrow> v \<le> Fin (dbl 0.8) \<Longrightarrow>
      gradeLabel (computeDD2025 x) = ''Grade 1'' \<and> badgeTone (computeDD2025 x) = blue"
    using assms by (simp add: computeDD2025_def computeSinus_def Let_def n)
  have b: "\<not> present_and (sinus_EA x) (\<lambda>v. v \<le> Fin (dbl 0.8)) \<Longrightarrow>
      computeDD2025 x =
        sinusConfirm x
          [''Top markers abnormal: 1/3'', ''Reduced e'' @ prime_sym @ '' only branch'']
          (sinus_missing x)"
    using assms by (simp add: computeDD2025_def computeSinus_def Let_def n show_nat_1)
  have gt_not_le: "\<not> v \<le> w" if "w < v" for v w :: number
    using that by (cases v; cases w) simp_all
  have c: "sinus_EA x = None \<or> (\<exists>v. sinus_EA x = Some v \<and> v > Fin (dbl 0.8)) \<Longrightarrow>
      \<not> present_and (sinus_EA x) (\<lambda>v. v \<le> Fin (dbl 0.8))"
    using gt_not_le by auto
  show ?thesis
    using a b c sinusConfirm_not_grade1 unfolding sinus_EA_def by metis
qed

theorem sinus_reduced_e_only_witness:
  "\<not> isAF ex_grade1 \<and> reducedE ex_grade1 \<and> \<not> highEe ex_grade1 \<and> \<not> highTR ex_grade1 \<and>
   safeDiv (num_of (E ex_grade1)) (num_of (A ex_grade1)) = Some (Fin (dbl 0.6)) \<and>
   Fin (dbl 0.6) \<le> Fin (dbl 0.8) \<and>
   gradeLabel (computeDD2025 ex_grade1) = ''Grade 1'' \<and>
   badgeTone (computeDD2025 ex_grade1) = blue \<and>
   \<not> isAF ex_fallthrough \<and> reducedE ex_fallthrough \<and> \<not> highEe ex_fallthrough \<and>
   \<not> highTR ex_fallthrough \<and>
   safeDiv (num_of (E ex_fallthrough)) (num_of (A ex_fallthrough)) = Some (Fin (dbl 1.2)) \<and>
   Fin (dbl 0.8) < Fin (dbl 1.2) \<and>
   computeDD2025 ex_fallthrough =
     sinusConfirm ex_fallthrough
       [''Top markers abnormal: 1/3'', ''Reduced e'' @ prime_sym @ '' only branch'']
       (sinus_missing ex_fallthrough) \<and>
   gradeLabel (computeDD2025 ex_fallthrough) \<noteq> ''Grade 1''"
proof -
  have g: "\<not> isAF ex_grade1" "reducedE ex_grade1" "\<not> highEe ex_grade1" "\<not> highTR ex_grade1"
    by (simp_all add: ex_grade1_def engine_eval round_eval)
  have f: "\<not> isAF ex_fallthrough" "reducedE ex_fallthrough" "\<not> highEe ex_fallthrough"
    "\<not> highTR ex_fallthrough"
    by (simp_all add: ex_fallthrough_def engine_eval round_eval)
  have eg: "safeDiv (num_of (E ex_grade1)) (num_of (A ex_grade1)) = Some (Fin (dbl 0.6))"
    by (simp add: ex_grade1_def blankInputs_def round_eval)
  have ef: "safeDiv (num_of (E ex_fallthrough)) (num_of (A ex_fallthrough))
      = Some (Fin (dbl 1.2))"
    by (simp add: ex_fallthrough_def blankInputs_def round_eval)
  have le: "Fin (dbl 0.6) \<le> Fin (dbl 0.8)" and gt: "Fin (dbl 0.8) < Fin (dbl 1.2)"
    by (simp_all add: round_eval)
  show ?thesis
    using sinus_reduced_e_only [OF g] sinus_reduced_e_only [OF f] g f eg ef le gt
    by blast
qed

subsection \<open>Sinus rhythm: confirmation of the pressure\<close>

text \<open>
  C4. In sinus mode, with at least one true top marker and the Grade-1 exit not taken: if
  none of PV S/D, LARS, LAVI and IVRT is present, the grade is "Indeterminate" with tone
  amber; otherwise the boolean "LAP elevated" of the specification is recorded as the last
  line of the trace, and if it is false the grade is "Indeterminate" with tone amber.
\<close>

theorem sinus_confirmation:
  assumes "\<not> isAF x"
    and "reducedE x \<or> highEe x \<or> highTR x"
    and "\<not> grade1_exit x"
  shows "(pvSD x = None \<and> lars x = None \<and> lavi x = None \<and> ivrt x = None \<longrightarrow>
            gradeLabel (computeDD2025 x) = ''Indeterminate'' \<and>
            badgeTone (computeDD2025 x) = amber) \<and>
         (\<not> (pvSD x = None \<and> lars x = None \<and> lavi x = None \<and> ivrt x = None) \<longrightarrow>
            last (ruleTrace (computeDD2025 x)) =
              (if spec_lap x then ''LAP elevated'' else ''LAP not elevated'') \<and>
            (\<not> spec_lap x \<longrightarrow>
               gradeLabel (computeDD2025 x) = ''Indeterminate'' \<and>
               badgeTone (computeDD2025 x) = amber))"
proof -
  from assms(2,3) obtain tr where c: "computeSinus x = sinusConfirm x tr (sinus_missing x)"
    using computeSinus_to_confirm by blast
  have r: "computeDD2025 x = sinusConfirm x tr (sinus_missing x)"
    using assms(1) c by (simp add: computeDD2025_def)
  have av: "anyConfirmAvailable x \<longleftrightarrow>
      \<not> (pvSD x = None \<and> lars x = None \<and> lavi x = None \<and> ivrt x = None)"
    by (simp add: anyConfirmAvailable_def)
  show ?thesis
    unfolding r
    using sinusConfirm_unavailable [of x tr "sinus_missing x"]
      sinusConfirm_available(1,2) [of x tr "sinus_missing x"]
    by (simp add: av lap_spec_lap)
qed

theorem sinus_confirmation_witness:
  "\<not> isAF ex_unconfirmed \<and> reducedE ex_unconfirmed \<and> \<not> grade1_exit ex_unconfirmed \<and>
   lavi ex_unconfirmed = Some 30 \<and> \<not> spec_lap ex_unconfirmed \<and>
   last (ruleTrace (computeDD2025 ex_unconfirmed)) = ''LAP not elevated'' \<and>
   gradeLabel (computeDD2025 ex_unconfirmed) = ''Indeterminate'' \<and>
   badgeTone (computeDD2025 ex_unconfirmed) = amber \<and>
   \<not> isAF ex_fallthrough \<and> reducedE ex_fallthrough \<and> \<not> grade1_exit ex_fallthrough \<and>
   pvSD ex_fallthrough = None \<and> lars ex_fallthrough = None \<and> lavi ex_fallthrough = None \<and>
   ivrt ex_fallthrough = None \<and>
   gradeLabel (computeDD2025 ex_fallthrough) = ''Indeterminate'' \<and>
   badgeTone (computeDD2025 ex_fallthrough) = amber"
proof -
  have u: "\<not> isAF ex_unconfirmed" "reducedE ex_unconfirmed" "\<not> grade1_exit ex_unconfirmed"
    "lavi ex_unconfirmed = Some 30" "\<not> spec_lap ex_unconfirmed"
    "pvSD ex_unconfirmed = None" "lars ex_unconfirmed = None" "ivrt ex_unconfirmed = None"
    by (simp_all add: ex_unconfirmed_def engine_eval round_eval)
  have f: "\<not> isAF ex_fallthrough" "reducedE ex_fallthrough" "\<not> grade1_exit ex_fallthrough"
    "pvSD ex_fallthrough = None" "lars ex_fallthrough = None" "lavi ex_fallthrough = None"
    "ivrt ex_fallthrough = None"
    by (simp_all add: ex_fallthrough_def engine_eval round_eval)
  show ?thesis
    using sinus_confirmation [of ex_unconfirmed] sinus_confirmation [of ex_fallthrough] u f
    by simp
qed

subsection \<open>Sinus rhythm: the grade under an elevated pressure\<close>

text \<open>
  C1. In sinus mode, for a bundle that reaches the grading stage (at least one top marker
  true, the Grade-1 exit not taken, at least one confirmatory variable present, "LAP
  elevated" true), with E/A the guarded quotient of E and A that the result carries: the
  tone is red, and the grade is "Increased LAP (grade unknown)" if E/A is absent,
  "Grade 3" if E/A is at least 2 (2.00 included) and "Grade 2" if E/A is below 2.
\<close>

theorem sinus_elevated_grade:
  assumes "\<not> isAF x"
    and "reducedE x \<or> highEe x \<or> highTR x"
    and "\<not> grade1_exit x"
    and "pvSD x \<noteq> None \<or> lars x \<noteq> None \<or> lavi x \<noteq> None \<or> ivrt x \<noteq> None"
    and "spec_lap x"
  shows "EA (derived (computeDD2025 x)) = safeDiv (num_of (E x)) (num_of (A x)) \<and>
         badgeTone (computeDD2025 x) = red \<and>
         (safeDiv (num_of (E x)) (num_of (A x)) = None \<longrightarrow>
            gradeLabel (computeDD2025 x) = ''Increased LAP (grade unknown)'') \<and>
         (\<forall>v. safeDiv (num_of (E x)) (num_of (A x)) = Some v \<and> v \<ge> Fin 2 \<longrightarrow>
            gradeLabel (computeDD2025 x) = ''Grade 3'') \<and>
         (\<forall>v. safeDiv (num_of (E x)) (num_of (A x)) = Some v \<and> v < Fin 2 \<longrightarrow>
            gradeLabel (computeDD2025 x) = ''Grade 2'')"
proof -
  from assms(2,3) obtain tr where c: "computeSinus x = sinusConfirm x tr (sinus_missing x)"
    using computeSinus_to_confirm by blast
  have av: "anyConfirmAvailable x"
    using assms(4) by (simp add: anyConfirmAvailable_def)
  have el: "lap x"
    using assms(5) by (simp add: lap_spec_lap)
  have g: "computeDD2025 x = sinusGrade x (tr @ [''LAP elevated'']) (sinus_missing x)"
    using assms(1) c sinusConfirm_available(3) [OF av el] by (simp add: computeDD2025_def)
  have lt_not_ge: "\<not> w \<le> v" if "v < w" for v w :: number
    using that by (cases v; cases w) simp_all
  show ?thesis
    unfolding g
    using lt_not_ge
    by (auto simp add: sinusGrade_EA sinusGrade_tone sinusGrade_label sinus_EA_def)
qed

theorem sinus_elevated_grade_witness:
  "\<not> isAF ex_elevated \<and> reducedE ex_elevated \<and> \<not> grade1_exit ex_elevated \<and>
   lavi ex_elevated = Some 40 \<and> spec_lap ex_elevated \<and>
   safeDiv (num_of (E ex_elevated)) (num_of (A ex_elevated)) = Some (Fin 2) \<and>
   EA (derived (computeDD2025 ex_elevated)) = Some (Fin 2) \<and>
   gradeLabel (computeDD2025 ex_elevated) = ''Grade 3'' \<and>
   badgeTone (computeDD2025 ex_elevated) = red"
proof -
  have h: "\<not> isAF ex_elevated" "reducedE ex_elevated" "\<not> grade1_exit ex_elevated"
    "lavi ex_elevated = Some 40" "spec_lap ex_elevated"
    "safeDiv (num_of (E ex_elevated)) (num_of (A ex_elevated)) = Some (Fin 2)"
    by (simp_all add: ex_elevated_def engine_eval round_eval)
  show ?thesis
    using sinus_elevated_grade [of ex_elevated] h by simp
qed

subsection \<open>Atrial fibrillation: the two tallies\<close>

text \<open>
  C2. In AF mode, with the tally of the four primary criteria of the specification (E at
  least 100; E divided by septal e' above 11, septal e' present and not zero; TR Vmax above
  2.8 or PASP above 35; DT at most 160): a tally of at most 1 gives "Normal LAP", green; a
  tally of at least 3 gives "Elevated LAP", red; a tally of exactly 2 goes to the secondary
  criteria (LARS < 18, PV S/D < 1, BMI > 30, over the present ones): "Indeterminate", amber,
  when none is available; "Elevated LAP", red, when at least 2 are positive; "Normal LAP",
  green, when some are available and none is positive; "Indeterminate", amber, when exactly
  1 is positive. The quotient is the one the program computes, rounded to a double: it can
  be above 11 where the exact quotient of the decimals typed is 11.
\<close>

theorem af_grading:
  assumes "isAF x"
  shows "(spec_af_tally x \<le> 1 \<longrightarrow>
            gradeLabel (computeDD2025 x) = ''Normal LAP'' \<and>
            badgeTone (computeDD2025 x) = green) \<and>
         (spec_af_tally x \<ge> 3 \<longrightarrow>
            gradeLabel (computeDD2025 x) = ''Elevated LAP'' \<and>
            badgeTone (computeDD2025 x) = red) \<and>
         (spec_af_tally x = 2 \<longrightarrow>
            (spec_sec_available x = 0 \<longrightarrow>
               gradeLabel (computeDD2025 x) = ''Indeterminate'' \<and>
               badgeTone (computeDD2025 x) = amber) \<and>
            (spec_sec_positive x \<ge> 2 \<longrightarrow>
               gradeLabel (computeDD2025 x) = ''Elevated LAP'' \<and>
               badgeTone (computeDD2025 x) = red) \<and>
            (spec_sec_available x > 0 \<and> spec_sec_positive x = 0 \<longrightarrow>
               gradeLabel (computeDD2025 x) = ''Normal LAP'' \<and>
               badgeTone (computeDD2025 x) = green) \<and>
            (spec_sec_positive x = 1 \<longrightarrow>
               gradeLabel (computeDD2025 x) = ''Indeterminate'' \<and>
               badgeTone (computeDD2025 x) = amber))"
proof -
  have r: "computeDD2025 x = computeAF x"
    using assms by (simp add: computeDD2025_def)
  have le: "spec_sec_positive x \<le> spec_sec_available x"
    using af_sec_le_avail [of x] by (simp add: af_sec_spec af_secAvail_spec)
  have two: "spec_af_tally x = 2 \<Longrightarrow>
      gradeLabel (computeAF x) =
        (if spec_sec_available x = 0 then ''Indeterminate''
         else if spec_sec_positive x \<ge> 2 then ''Elevated LAP''
         else if spec_sec_positive x = 0 then ''Normal LAP'' else ''Indeterminate'') \<and>
      badgeTone (computeAF x) =
        (if spec_sec_available x = 0 then amber
         else if spec_sec_positive x \<ge> 2 then red
         else if spec_sec_positive x = 0 then green else amber)"
    using computeAF_two [of x] by (simp add: af_count_spec af_sec_spec af_secAvail_spec)
  show ?thesis
    unfolding r
    using computeAF_low [of x] computeAF_high [of x] two le
    by (auto simp add: af_count_spec)
qed

theorem af_grading_witness:
  "isAF ex_af_tiebreak \<and> spec_af_tally ex_af_tiebreak = 2 \<and>
   spec_sec_available ex_af_tiebreak = 3 \<and> spec_sec_positive ex_af_tiebreak = 2 \<and>
   gradeLabel (computeDD2025 ex_af_tiebreak) = ''Elevated LAP'' \<and>
   badgeTone (computeDD2025 ex_af_tiebreak) = red \<and>
   isAF ex_af_no_secondary \<and> spec_af_tally ex_af_no_secondary = 2 \<and>
   spec_sec_available ex_af_no_secondary = 0 \<and>
   gradeLabel (computeDD2025 ex_af_no_secondary) = ''Indeterminate'' \<and>
   badgeTone (computeDD2025 ex_af_no_secondary) = amber \<and>
   isAF ex_af_quotient \<and>
   fdiv (Fin (dbl 90.2)) (Fin (dbl 8.2)) = Fin (6192449487634433 / 2 ^ 49) \<and>
   Fin 11 < fdiv (Fin (dbl 90.2)) (Fin (dbl 8.2)) \<and>
   spec_af_tally ex_af_quotient = 2 \<and> spec_sec_available ex_af_quotient = 0 \<and>
   gradeLabel (computeDD2025 ex_af_quotient) = ''Indeterminate'' \<and>
   badgeTone (computeDD2025 ex_af_quotient) = amber"
proof -
  have t: "isAF ex_af_tiebreak" "spec_af_tally ex_af_tiebreak = 2"
    "spec_sec_available ex_af_tiebreak = 3" "spec_sec_positive ex_af_tiebreak = 2"
    by (simp_all add: ex_af_tiebreak_def blankInputs_def spec_af_tally_def spec_af_primary_def
        spec_sec_available_def spec_sec_positive_def spec_af_secondary_def round_eval)
  have n: "isAF ex_af_no_secondary" "spec_af_tally ex_af_no_secondary = 2"
    "spec_sec_available ex_af_no_secondary = 0"
    by (simp_all add: ex_af_no_secondary_def blankInputs_def spec_af_tally_def
        spec_af_primary_def spec_sec_available_def spec_af_secondary_def round_eval)
  have d: "fdiv (Fin (dbl 90.2)) (Fin (dbl 8.2)) = Fin (6192449487634433 / 2 ^ 49)"
    by (simp add: round_eval)
  have q: "isAF ex_af_quotient" "Fin 11 < fdiv (Fin (dbl 90.2)) (Fin (dbl 8.2))"
    "spec_af_tally ex_af_quotient = 2" "spec_sec_available ex_af_quotient = 0"
    by (simp_all add: ex_af_quotient_def blankInputs_def spec_af_tally_def
        spec_af_primary_def spec_sec_available_def spec_af_secondary_def round_eval)
  show ?thesis
    using af_grading [of ex_af_tiebreak] af_grading [of ex_af_no_secondary]
      af_grading [of ex_af_quotient] t n d q
    by simp
qed

subsection \<open>Atrial fibrillation: no E/A\<close>

text \<open>
  C8. In AF mode the derived E/A field of the result is null for every bundle.
\<close>

theorem af_EA_null: "isAF x \<Longrightarrow> EA (derived (computeDD2025 x)) = None"
  by (simp add: computeDD2025_def computeAF_EA)

theorem af_EA_null_witness:
  "isAF (blankInputs\<lparr>isAF := True, E := Some 110, A := Some 60\<rparr>) \<and>
   EA (derived (computeDD2025 (blankInputs\<lparr>isAF := True, E := Some 110, A := Some 60\<rparr>)))
     = None"
  using af_EA_null [of "blankInputs\<lparr>isAF := True, E := Some 110, A := Some 60\<rparr>"]
  by (simp add: blankInputs_def)

subsection \<open>Rounding of the quotient and of the mean\<close>

text \<open>
  C6, as the code has it. For present operands, the guarded division (denominator not zero)
  and the two-value average (both values present) compute the quotient, or the mean, and
  its product with 100 in double arithmetic, round that product to the nearest integer with
  a tie going towards plus infinity, and divide the integer by 100 in double arithmetic.
  The integer is the one that rounding half away from zero gives, except when the product
  is negative and exactly halfway between two integers. A product that has overflowed to
  an infinity gives that infinity.
\<close>

theorem rounding_rule:
  "(b \<noteq> 0 \<longrightarrow>
      (\<forall>p. scaled_quotient a b = Fin p \<longrightarrow>
         (\<exists>n::int. safeDiv (Some (Fin a)) (Some (Fin b)) = Some (fdiv (Fin (of_int n)) (Fin 100)) \<and>
            p - 1 / 2 < of_int n \<and> of_int n \<le> p + 1 / 2 \<and>
            (\<not> negative_tie p \<longrightarrow> of_int n = round_half_away p))) \<and>
      (scaled_quotient a b = PInf \<longrightarrow> safeDiv (Some (Fin a)) (Some (Fin b)) = Some PInf) \<and>
      (scaled_quotient a b = NInf \<longrightarrow> safeDiv (Some (Fin a)) (Some (Fin b)) = Some NInf)) \<and>
   (\<forall>p. scaled_mean a b = Fin p \<longrightarrow>
      (\<exists>n::int. avg2 (Some (Fin a)) (Some (Fin b)) = Some (fdiv (Fin (of_int n)) (Fin 100)) \<and>
         p - 1 / 2 < of_int n \<and> of_int n \<le> p + 1 / 2 \<and>
         (\<not> negative_tie p \<longrightarrow> of_int n = round_half_away p))) \<and>
   (scaled_mean a b = PInf \<longrightarrow> avg2 (Some (Fin a)) (Some (Fin b)) = Some PInf) \<and>
   (scaled_mean a b = NInf \<longrightarrow> avg2 (Some (Fin a)) (Some (Fin b)) = Some NInf)"
proof -
  have fin: "\<exists>n::int. fdiv (Math_round (Fin p)) (Fin 100) = fdiv (Fin (of_int n)) (Fin 100) \<and>
      p - 1 / 2 < of_int n \<and> of_int n \<le> p + 1 / 2 \<and>
      (\<not> negative_tie p \<longrightarrow> of_int n = round_half_away p)" for p
  proof (intro exI [of _ "\<lfloor>p + 1 / 2\<rfloor>"] conjI impI)
    show "fdiv (Math_round (Fin p)) (Fin 100) = fdiv (Fin (of_int \<lfloor>p + 1 / 2\<rfloor>)) (Fin 100)"
      by simp
    show "p - 1 / 2 < of_int \<lfloor>p + 1 / 2\<rfloor>" and "of_int \<lfloor>p + 1 / 2\<rfloor> \<le> p + 1 / 2"
      using floor_half_nearest [of p] by simp_all
    show "of_int \<lfloor>p + 1 / 2\<rfloor> = round_half_away p" if "\<not> negative_tie p"
      using that by (rule floor_half_away)
  qed
  have q: "b \<noteq> 0 \<Longrightarrow> safeDiv (Some (Fin a)) (Some (Fin b)) =
      Some (fdiv (Math_round (scaled_quotient a b)) (Fin 100))"
    by (simp add: scaled_quotient_def)
  have m: "avg2 (Some (Fin a)) (Some (Fin b)) =
      Some (fdiv (Math_round (scaled_mean a b)) (Fin 100))"
    by (simp add: scaled_mean_def)
  have inf: "fdiv (Math_round PInf) (Fin 100) = PInf" "fdiv (Math_round NInf) (Fin 100) = NInf"
    by simp_all
  show ?thesis
    using fin q m inf
    by (auto simp del: safeDiv.simps avg2.simps Math_round.simps fdiv.simps)
qed

theorem rounding_rule_witness:
  "(8::real) \<noteq> 0 \<and> scaled_quotient 1 8 = Fin 12.5 \<and> \<not> negative_tie 12.5 \<and>
   round_half_away 12.5 = 13 \<and>
   safeDiv (Some (Fin 1)) (Some (Fin 8)) = Some (fdiv (Fin 13) (Fin 100)) \<and>
   safeDiv (Some (Fin 1)) (Some (Fin 8)) = Some (Fin (dbl 0.13)) \<and>
   scaled_mean 3 (dbl 4.01) = Fin 350.5 \<and> round_half_away 350.5 = 351 \<and>
   avg2 (Some (Fin 3)) (Some (Fin (dbl 4.01))) = Some (Fin (dbl 3.51)) \<and>
   safeDiv (Some (Fin (dbl 32.8))) (Some (Fin 32)) = Some (Fin (dbl 1.02)) \<and>
   safeDiv (Some (Fin (dbl 79.8))) (Some (Fin 40)) = Some (Fin 2) \<and>
   avg2 (Some (Fin (dbl 4.04))) (Some (Fin (dbl 8.95))) = Some (Fin (dbl 6.49))"
proof -
  have a: "scaled_quotient 1 8 = Fin 12.5" "\<not> negative_tie 12.5" "round_half_away 12.5 = 13"
    "fdiv (Fin 13) (Fin 100) = Fin (dbl 0.13)"
    by (simp_all add: scaled_quotient_def negative_tie_def round_half_away_def round_eval)
  have b: "scaled_mean 3 (dbl 4.01) = Fin 350.5" "\<not> negative_tie 350.5"
    "round_half_away 350.5 = 351" "fdiv (Fin 351) (Fin 100) = Fin (dbl 3.51)"
    by (simp_all add: scaled_mean_def negative_tie_def round_half_away_def round_eval)
  have c: "safeDiv (Some (Fin (dbl 32.8))) (Some (Fin 32)) = Some (Fin (dbl 1.02))"
    "safeDiv (Some (Fin (dbl 79.8))) (Some (Fin 40)) = Some (Fin 2)"
    "avg2 (Some (Fin (dbl 4.04))) (Some (Fin (dbl 8.95))) = Some (Fin (dbl 6.49))"
    by (simp_all add: round_eval)
  have ne: "(8::real) \<noteq> 0"
    by simp
  from rounding_rule [where a = 1 and b = 8, THEN conjunct1, THEN mp, OF ne,
      THEN conjunct1, THEN spec, THEN mp, OF a(1)] a(2)
  obtain n :: int where n: "safeDiv (Some (Fin 1)) (Some (Fin 8)) =
      Some (fdiv (Fin (of_int n)) (Fin 100))" "of_int n = round_half_away 12.5"
    by blast
  have n13: "n = 13"
    using n(2) a(3) by simp
  from rounding_rule [where a = 3 and b = "dbl 4.01", THEN conjunct2, THEN conjunct1,
      THEN spec, THEN mp, OF b(1)] b(2)
  obtain k :: int where k: "avg2 (Some (Fin 3)) (Some (Fin (dbl 4.01))) =
      Some (fdiv (Fin (of_int k)) (Fin 100))" "of_int k = round_half_away 350.5"
    by blast
  have k351: "k = 351"
    using k(2) b(3) by simp
  have sq: "safeDiv (Some (Fin 1)) (Some (Fin 8)) = Some (fdiv (Fin 13) (Fin 100))"
    using n(1) unfolding n13 by simp
  have sm: "avg2 (Some (Fin 3)) (Some (Fin (dbl 4.01))) = Some (Fin (dbl 3.51))"
    using k(1) b(4) unfolding k351 by simp
  show ?thesis
    using ne a b(1,3) c sq sm by (simp del: safeDiv.simps avg2.simps fdiv.simps)
qed

text \<open>
  C6 as stated fails on a negative tie: -1 divided by 8 is -0.125, its product with 100 is
  -12.5, which the code rounds to -12 and returns -0.12, where rounding half away from zero
  gives -13 and -0.13.
\<close>

theorem rounding_half_away_counterexample:
  "scaled_quotient (- 1) 8 = Fin (- 12.5) \<and>
   round_half_away (- 12.5) = - 13 \<and>
   safeDiv (Some (Fin (- 1))) (Some (Fin 8)) = Some (Fin (dbl (- 0.12))) \<and>
   fdiv (Fin (round_half_away (- 12.5))) (Fin 100) = Fin (dbl (- 0.13)) \<and>
   safeDiv (Some (Fin (- 1))) (Some (Fin 8)) \<noteq>
     Some (fdiv (Fin (round_half_away (- 12.5))) (Fin 100))"
  by (simp add: scaled_quotient_def round_half_away_def round_eval)

subsection \<open>Decimal places of the derived values\<close>

text \<open>A rounding does not overflow when the exact value is well inside the range.\<close>

lemma dbl_bound: "\<bar>dbl v\<bar> \<le> 2 * \<bar>v\<bar> + 1"
proof -
  have t: "(2::real) powi (- 1022) \<le> 1"
    by (simp add: power_int_minus_divide)
  have "\<bar>dbl v - v\<bar> \<le> max \<bar>v\<bar> (2 powi (- 1022)) / 2 ^ 53"
    by (rule dbl_error)
  also have "\<dots> \<le> max \<bar>v\<bar> (2 powi (- 1022)) / 1"
    by (intro divide_left_mono) simp_all
  also have "\<dots> \<le> \<bar>v\<bar> + 1"
    using t by simp
  finally show ?thesis
    by linarith
qed

lemma fl_finite:
  assumes "\<bar>v\<bar> \<le> c" and "2 * c + 1 < 2 ^ 1024"
  shows "fl v = Fin (dbl v) \<and> \<bar>dbl v\<bar> \<le> 2 * c + 1"
proof -
  have b: "\<bar>dbl v\<bar> \<le> 2 * c + 1"
    using dbl_bound [of v] assms(1) by linarith
  then have "\<not> 2 ^ 1024 \<le> dbl v" and "\<not> dbl v \<le> - (2 ^ 1024)"
    using assms(2) by linarith+
  then show ?thesis
    using b by (simp add: fl_def overflow_def)
qed

lemma round_div100_finite:
  assumes "\<bar>p\<bar> \<le> 2 ^ 1012"
  shows "is_2dp (fdiv (Math_round (Fin p)) (Fin 100))"
proof -
  define n :: int where "n = \<lfloor>p + 1 / 2\<rfloor>"
  have "\<bar>of_int n :: real\<bar> \<le> \<bar>p\<bar> + 1"
    unfolding n_def by linarith
  then have "\<bar>of_int n / 100 :: real\<bar> \<le> 2 ^ 1012 + 1"
    using assms by simp
  moreover have "2 * ((2::real) ^ 1012 + 1) + 1 < 2 ^ 1024"
    by simp
  ultimately have "fl (of_int n / 100) = Fin (dbl (of_int n / 100))"
    using fl_finite by blast
  then show ?thesis
    unfolding is_2dp_def n_def by auto
qed

lemma safeDiv_finite:
  assumes "b \<noteq> 0" and "\<bar>a\<bar> \<le> 2 ^ 1000 * \<bar>b\<bar>"
  shows "null_or_2dp (safeDiv (Some (Fin a)) (Some (Fin b)))"
proof -
  have "\<bar>a / b\<bar> \<le> 2 ^ 1000"
    using assms by (simp add: field_simps)
  moreover have "2 * (2::real) ^ 1000 + 1 < 2 ^ 1024"
    by simp
  ultimately have q: "fl (a / b) = Fin (dbl (a / b))" "\<bar>dbl (a / b)\<bar> \<le> 2 * 2 ^ 1000 + 1"
    using fl_finite by blast+
  have "\<bar>dbl (a / b) * 100\<bar> \<le> 100 * (2 * 2 ^ 1000 + 1)"
    using q(2) by (simp add: abs_mult)
  moreover have "2 * (100 * (2 * (2::real) ^ 1000 + 1)) + 1 < 2 ^ 1024"
    by simp
  ultimately have p: "fl (dbl (a / b) * 100) = Fin (dbl (dbl (a / b) * 100))"
    "\<bar>dbl (dbl (a / b) * 100)\<bar> \<le> 2 * (100 * (2 * 2 ^ 1000 + 1)) + 1"
    using fl_finite by blast+
  have "\<bar>dbl (dbl (a / b) * 100)\<bar> \<le> 2 ^ 1012"
    using p(2) by simp
  then have "is_2dp (fdiv (Math_round (Fin (dbl (dbl (a / b) * 100)))) (Fin 100))"
    by (rule round_div100_finite)
  then show ?thesis
    using assms(1) q(1) p(1) by simp
qed

lemma avg2_finite:
  assumes "\<bar>a\<bar> \<le> 2 ^ 1000" and "\<bar>b\<bar> \<le> 2 ^ 1000"
  shows "null_or_2dp (avg2 (Some (Fin a)) (Some (Fin b)))"
proof -
  have "\<bar>a + b\<bar> \<le> 2 * 2 ^ 1000"
    using assms by linarith
  moreover have "2 * (2 * (2::real) ^ 1000) + 1 < 2 ^ 1024"
    by simp
  ultimately have s: "fl (a + b) = Fin (dbl (a + b))" "\<bar>dbl (a + b)\<bar> \<le> 2 * (2 * 2 ^ 1000) + 1"
    using fl_finite by blast+
  have "\<bar>dbl (a + b) / 2\<bar> \<le> 2 * (2 * 2 ^ 1000) + 1"
    using s(2) by simp
  moreover have "2 * (2 * (2 * (2::real) ^ 1000) + 1) + 1 < 2 ^ 1024"
    by simp
  ultimately have h: "fl (dbl (a + b) / 2) = Fin (dbl (dbl (a + b) / 2))"
    "\<bar>dbl (dbl (a + b) / 2)\<bar> \<le> 2 * (2 * (2 * 2 ^ 1000) + 1) + 1"
    using fl_finite by blast+
  have "\<bar>dbl (dbl (a + b) / 2) * 100\<bar> \<le> 100 * (2 * (2 * (2 * 2 ^ 1000) + 1) + 1)"
    using h(2) by (simp add: abs_mult)
  moreover have "2 * (100 * (2 * (2 * (2 * (2::real) ^ 1000) + 1) + 1)) + 1 < 2 ^ 1024"
    by simp
  ultimately have p: "fl (dbl (dbl (a + b) / 2) * 100) = Fin (dbl (dbl (dbl (a + b) / 2) * 100))"
    "\<bar>dbl (dbl (dbl (a + b) / 2) * 100)\<bar>
       \<le> 2 * (100 * (2 * (2 * (2 * 2 ^ 1000) + 1) + 1)) + 1"
    using fl_finite by blast+
  have "\<bar>dbl (dbl (dbl (a + b) / 2) * 100)\<bar> \<le> 2 ^ 1012"
    using p(2) by simp
  then have "is_2dp (fdiv (Math_round (Fin (dbl (dbl (dbl (a + b) / 2) * 100)))) (Fin 100))"
    by (rule round_div100_finite)
  then show ?thesis
    using s(1) h(1) p(1) by simp
qed

text \<open>
  C7, as the code has it. For every bundle and either mode, the derived E/A and
  E/average-e' are null, or rounded to two decimal places (the double nearest to a number
  with two decimals), or an infinity when the arithmetic overflows; E/A is null or rounded
  whenever the magnitude of E is at most \<open>2^1000\<close> times that of A, and E/average-e'
  whenever it is at most \<open>2^1000\<close> times that of a finite average e'. The derived average e'
  is null, rounded or infinite in the same way when septal and lateral e' are both present,
  rounded when both are at most \<open>2^1000\<close> in magnitude, and it is the other value, as it
  was given, when one of them is absent.
\<close>

theorem derived_two_decimals:
  "null_2dp_or_inf (EA (derived (computeDD2025 x))) \<and>
   null_2dp_or_inf (EeAvg (derived (computeDD2025 x))) \<and>
   (\<forall>e a. E x = Some e \<and> A x = Some a \<and> \<bar>e\<bar> \<le> 2 ^ 1000 * \<bar>a\<bar> \<longrightarrow>
      null_or_2dp (EA (derived (computeDD2025 x)))) \<and>
   (\<forall>e m. E x = Some e \<and> eAvg (derived (computeDD2025 x)) = Some (Fin m) \<and>
      \<bar>e\<bar> \<le> 2 ^ 1000 * \<bar>m\<bar> \<longrightarrow>
      null_or_2dp (EeAvg (derived (computeDD2025 x)))) \<and>
   (eSeptal x \<noteq> None \<and> eLateral x \<noteq> None \<longrightarrow>
      null_2dp_or_inf (eAvg (derived (computeDD2025 x)))) \<and>
   (\<forall>s l. eSeptal x = Some s \<and> eLateral x = Some l \<and> \<bar>s\<bar> \<le> 2 ^ 1000 \<and> \<bar>l\<bar> \<le> 2 ^ 1000 \<longrightarrow>
      null_or_2dp (eAvg (derived (computeDD2025 x)))) \<and>
   (eLateral x = None \<longrightarrow> eAvg (derived (computeDD2025 x)) = num_of (eSeptal x)) \<and>
   (eSeptal x = None \<longrightarrow> eAvg (derived (computeDD2025 x)) = num_of (eLateral x))"
proof -
  have a: "eAvg (derived (computeDD2025 x)) = avg2 (num_of (eSeptal x)) (num_of (eLateral x))"
    by (simp add: computeDD2025_def computeSinus_derived computeAF_derived eAvg_of_def)
  have ea: "EA (derived (computeDD2025 x)) =
      (if isAF x then None else safeDiv (num_of (E x)) (num_of (A x)))"
    by (simp add: computeDD2025_def computeSinus_derived computeAF_derived sinus_EA_def)
  have nn: "num_of (A x) \<noteq> Some NaN"
    by (cases "A x") simp_all
  have b: "null_2dp_or_inf (EA (derived (computeDD2025 x)))"
    unfolding ea using safeDiv_2dp [OF nn] by simp
  have c: "null_2dp_or_inf (EeAvg (derived (computeDD2025 x)))"
    using safeDiv_2dp [OF avg2_not_NaN]
    by (simp add: computeDD2025_def computeSinus_derived computeAF_derived EeAvg_of_def
        eAvg_of_def)
  have b2: "null_or_2dp (EA (derived (computeDD2025 x)))"
    if "E x = Some e" and "A x = Some a" and "\<bar>e\<bar> \<le> 2 ^ 1000 * \<bar>a\<bar>" for e a
  proof (cases "a = 0")
    case True
    then show ?thesis unfolding ea using that by simp
  next
    case False
    then show ?thesis
      unfolding ea using that safeDiv_finite [of a e] by simp
  qed
  have ee: "EeAvg (derived (computeDD2025 x)) =
      safeDiv (num_of (E x)) (avg2 (num_of (eSeptal x)) (num_of (eLateral x)))"
    by (simp add: computeDD2025_def computeSinus_derived computeAF_derived EeAvg_of_def
        eAvg_of_def)
  have c2: "null_or_2dp (EeAvg (derived (computeDD2025 x)))"
    if "E x = Some e" and "avg2 (num_of (eSeptal x)) (num_of (eLateral x)) = Some (Fin m)"
      and "\<bar>e\<bar> \<le> 2 ^ 1000 * \<bar>m\<bar>" for e m
  proof (cases "m = 0")
    case True
    then show ?thesis unfolding ee using that by simp
  next
    case False
    then show ?thesis
      unfolding ee using that safeDiv_finite [of m e] by simp
  qed
  have d: "eSeptal x \<noteq> None \<and> eLateral x \<noteq> None \<longrightarrow>
      null_2dp_or_inf (avg2 (num_of (eSeptal x)) (num_of (eLateral x)))"
    using avg2_both_2dp by auto
  have d2: "null_or_2dp (avg2 (num_of (eSeptal x)) (num_of (eLateral x)))"
    if "eSeptal x = Some s" and "eLateral x = Some l" and "\<bar>s\<bar> \<le> 2 ^ 1000"
      and "\<bar>l\<bar> \<le> 2 ^ 1000" for s l
    using that avg2_finite [of s l] by simp
  have e: "eLateral x = None \<longrightarrow> avg2 (num_of (eSeptal x)) (num_of (eLateral x))
      = num_of (eSeptal x)"
    by (cases "eSeptal x") simp_all
  have f: "eSeptal x = None \<longrightarrow> avg2 (num_of (eSeptal x)) (num_of (eLateral x))
      = num_of (eLateral x)"
    by (cases "eLateral x") simp_all
  show ?thesis
    using b c b2 c2 d d2 e f unfolding a by blast
qed

theorem derived_two_decimals_witness:
  "E ex_elevated = Some 120 \<and> A ex_elevated = Some 60 \<and>
   \<bar>120 :: real\<bar> \<le> 2 ^ 1000 * \<bar>60\<bar> \<and>
   eSeptal ex_elevated = Some 5 \<and> eLateral ex_elevated = Some 6 \<and>
   \<bar>5 :: real\<bar> \<le> 2 ^ 1000 \<and> \<bar>6 :: real\<bar> \<le> 2 ^ 1000 \<and>
   EA (derived (computeDD2025 ex_elevated)) = Some (Fin 2) \<and>
   eAvg (derived (computeDD2025 ex_elevated)) = Some (Fin 5.5) \<and>
   EeAvg (derived (computeDD2025 ex_elevated)) = Some (Fin (dbl 21.82)) \<and>
   null_or_2dp (EA (derived (computeDD2025 ex_elevated))) \<and>
   null_or_2dp (eAvg (derived (computeDD2025 ex_elevated))) \<and>
   null_2dp_or_inf (EeAvg (derived (computeDD2025 ex_elevated))) \<and>
   eLateral ex_single_e = None \<and>
   eAvg (derived (computeDD2025 ex_single_e)) = num_of (eSeptal ex_single_e)"
proof -
  have i: "E ex_elevated = Some 120" "A ex_elevated = Some 60"
    "eSeptal ex_elevated = Some 5" "eLateral ex_elevated = Some 6"
    "eLateral ex_single_e = None"
    by (simp_all add: ex_elevated_def ex_single_e_def blankInputs_def)
  have m: "\<bar>120 :: real\<bar> \<le> 2 ^ 1000 * \<bar>60\<bar>" "\<bar>5 :: real\<bar> \<le> 2 ^ 1000" "\<bar>6 :: real\<bar> \<le> 2 ^ 1000"
    by simp_all
  have v: "EA (derived (computeDD2025 ex_elevated)) = Some (Fin 2)"
    "eAvg (derived (computeDD2025 ex_elevated)) = Some (Fin 5.5)"
    "EeAvg (derived (computeDD2025 ex_elevated)) = Some (Fin (dbl 21.82))"
    by (simp_all add: computeDD2025_def computeSinus_derived ex_elevated_def engine_eval
        round_eval)
  show ?thesis
    using derived_two_decimals [of ex_elevated] derived_two_decimals [of ex_single_e] i m v
    by (simp del: null_or_2dp.simps null_2dp_or_inf.simps)
qed

text \<open>
  C7 as stated fails when one e' is absent, and when the arithmetic overflows. With septal
  e' typed 7.123 and no lateral e', the derived average e' is that double, which is not
  rounded to two decimal places. With E typed 1e307 and A 1, the product of the quotient
  with 100 overflows and the derived E/A is plus infinity.
\<close>

theorem derived_two_decimals_counterexample:
  "eAvg (derived (computeDD2025 ex_single_e)) = Some (Fin (dbl 7.123)) \<and>
   \<not> null_or_2dp (eAvg (derived (computeDD2025 ex_single_e))) \<and>
   EA (derived (computeDD2025 ex_overflow)) = Some PInf \<and>
   \<not> null_or_2dp (EA (derived (computeDD2025 ex_overflow)))"
proof -
  have v: "eAvg (derived (computeDD2025 ex_single_e)) = Some (Fin (dbl 7.123))"
    by (simp add: computeDD2025_def computeSinus_derived eAvg_of_def ex_single_e_def
        blankInputs_def)
  define d where "d = dbl 7.123"
  have r: "71229 / 100 \<le> d * 100" "d * 100 \<le> 71231 / 100"
    unfolding d_def by (simp_all add: round_eval)
  have "\<not> is_2dp (Fin d)"
  proof
    assume "is_2dp (Fin d)"
    moreover have "\<bar>d\<bar> \<le> 1000"
      using r by linarith
    ultimately obtain n :: int where "\<bar>d * 100 - of_int n\<bar> \<le> 1 / 1000"
      using is_2dp_near by blast
    then have "(712 :: real) < of_int n" and "of_int n < (713 :: real)"
      using r by linarith+
    then have "712 < n" and "n < 713"
      by linarith+
    then show False
      by linarith
  qed
  then have n: "\<not> null_or_2dp (eAvg (derived (computeDD2025 ex_single_e)))"
    unfolding v d_def by simp
  have o: "EA (derived (computeDD2025 ex_overflow)) = Some PInf"
    by (simp add: computeDD2025_def computeSinus_derived sinus_EA_def ex_overflow_def
        blankInputs_def round_eval)
  have "\<not> null_or_2dp (Some PInf)"
    by (simp add: is_2dp_def)
  then show ?thesis
    using v n o by simp
qed

subsection \<open>The missing-input list\<close>

text \<open>
  C9, as the code has it. For every bundle and either mode, the missing-input list names no
  field that is present, and it names a field exactly in these cases: E when absent; in
  sinus mode A when absent, and septal and lateral e' when both are absent; in AF mode
  septal e' when absent, TR Vmax and PASP when both are absent, and DT when absent.
\<close>

theorem missing_list_exact:
  "(listed f (missing (computeDD2025 x)) \<longrightarrow> field_value x f = None) \<and>
   (listed f (missing (computeDD2025 x)) \<longleftrightarrow> advised x f)"
proof -
  have "listed f (missing (computeDD2025 x)) \<longleftrightarrow> advised x f"
    by (cases f) (auto simp add: computeDD2025_missing listed_sinus listed_af)
  then show ?thesis
    using advised_absent by blast
qed

theorem missing_list_exact_witness:
  "listed f_E (missing (computeDD2025 blankInputs)) \<and> field_value blankInputs f_E = None \<and>
   advised blankInputs f_E \<and>
   \<not> listed f_lavi (missing (computeDD2025 blankInputs)) \<and>
   missing (computeDD2025 ex_af_no_secondary) = [] \<and>
   \<not> listed f_E (missing (computeDD2025 ex_af_no_secondary)) \<and>
   field_value ex_af_no_secondary f_E = Some 95"
  using missing_list_exact [of f_E blankInputs] missing_list_exact [of f_lavi blankInputs]
    missing_list_exact [of f_E ex_af_no_secondary]
  by (simp add: blankInputs_def ex_af_no_secondary_def computeDD2025_missing af_missing_def)

text \<open>
  C9 as stated fails for an absent field that the active mode reads but that no advisory
  covers: in sinus mode with E, A and both e' present and no confirmatory input, LAVI is
  absent and read by the confirmation stage (the result is "Indeterminate" for want of a
  confirmatory variable), and the list is empty.
\<close>

theorem missing_list_counterexample:
  "missing (computeDD2025 ex_fallthrough) = [] \<and>
   gradeLabel (computeDD2025 ex_fallthrough) = ''Indeterminate'' \<and>
   field_value ex_fallthrough f_lavi = None \<and>
   relevant (isAF ex_fallthrough) f_lavi \<and>
   \<not> listed f_lavi (missing (computeDD2025 ex_fallthrough))"
proof -
  have m: "missing (computeDD2025 ex_fallthrough) = []"
    by (simp add: ex_fallthrough_def blankInputs_def computeDD2025_missing sinus_missing_def)
  have h: "\<not> isAF ex_fallthrough" "reducedE ex_fallthrough" "\<not> grade1_exit ex_fallthrough"
    "\<not> anyConfirmAvailable ex_fallthrough" "field_value ex_fallthrough f_lavi = None"
    by (simp_all add: ex_fallthrough_def anyConfirmAvailable_def engine_eval round_eval)
  obtain tr where "computeSinus ex_fallthrough =
      sinusConfirm ex_fallthrough tr (sinus_missing ex_fallthrough)"
    using computeSinus_to_confirm h(2,3) by blast
  then have g: "gradeLabel (computeDD2025 ex_fallthrough) = ''Indeterminate''"
    using h(1,4) sinusConfirm_unavailable by (simp add: computeDD2025_def)
  show ?thesis
    using m g h(1,5) by (simp add: listed_def)
qed

subsection \<open>The tone is never gray\<close>

text \<open>
  C10. For every bundle and either mode the tone of the result is one of green, blue,
  amber and red: the engine never produces gray, although the type has it.
\<close>

theorem tone_never_gray: "badgeTone (computeDD2025 x) \<noteq> gray"
  using computeSinus_tone [of x] computeAF_tone [of x]
  by (auto simp add: computeDD2025_def)

end
